theory Spec2Isabelle
  imports Complex_Main
begin

section \<open>Data model of the backtest engine (include/backtest.h)\<close>

text \<open>
  Conventions of the embedding.
  \<^item> A C++ \<open>double\<close> is modelled by a \<open>real\<close>: arithmetic is exact, there is no rounding,
    no infinity and no NaN. A division by zero, an infinity or a NaN in the source, is 0 in
    the model; no statement below rests on the value of such a quotient.
  \<^item> An \<open>int\<close> is modelled by \<open>int\<close>; where the source converts between \<open>size_t\<close> and
    \<open>int\<close> the conversion is written out (\<open>to_size_t\<close>, \<open>to_int32\<close>).
  \<^item> A \<open>DateTime\<close> (a \<open>system_clock::time_point\<close>) is its tick count.
  \<^item> A \<open>std::vector\<close> is a list. Reading or writing an element outside the vector is
    undefined behaviour in the source; the model returns the error \<open>OutOfRange\<close> there.
  \<^item> A \<open>std::map\<close> with string keys that the source iterates is the list of its entries in
    iteration order; the map \<open>results\<close>, which is only written and returned, is a partial
    function.
  \<^item> A thrown \<open>std::invalid_argument\<close> is the error \<open>InvalidArgument\<close> with its message.
  \<^item> Output to \<open>std::cout\<close> is not modelled.
\<close>

type_synonym DateTime = int

datatype TradeType = LONG | SHORT | LONG_SHORT

datatype SignalPriorityMode = EXIT_FIRST | ENTRY_FIRST | SAME_BAR_TRADE

datatype ExitReason =
  TAKE_PROFIT | STOP_LOSS | EXIT_SIGNAL | MAX_HOLDING_PERIOD | FORCE_EXIT | NONE

datatype error = InvalidArgument string | OutOfRange

record BacktestMetrics =
  startValue :: real
  endValue :: real
  totalReturn :: real
  annualizedReturn :: real
  maxDrawdown :: real
  totalTrades :: int
  winningTrades :: int
  winRate :: real
  profitFactor :: real
  sharpeRatio :: real
  sortinoRatio :: real
  calmarRatio :: real
  equityCurve :: "(DateTime \<times> real) list"

record Trade =
  entryTime :: DateTime
  exitTime :: DateTime
  entryPrice :: real
  exitPrice :: real
  quantity :: real
  profit :: real
  profitPct :: real
  direction :: string
  exitReason :: string
  entryIndex :: int
  exitIndex :: int
  entryFee :: real
  exitFee :: real
  entryInvestment :: real
  currentValue :: real
  exitValue :: real
  tradeReturn :: real
  positionType :: string
  position :: real
  signal :: int

record TimeSeriesData =
  dates :: "DateTime list"
  prices :: "real list"
  entries :: "int list"
  exits :: "int list"
  availableCapital :: "real list"
  positionValue :: "real list"
  totalCapital :: "real list"
  dailyReturn :: "real list"
  cumulativeReturn :: "real list"

record Backtest =
  data :: TimeSeriesData
  interval :: string
  tradeType :: TradeType
  startFund :: real
  eachTrade :: real
  tradeFees :: real
  tpStop :: real
  slStop :: real
  minHolding :: int
  maxHolding :: int
  slippagePct :: real
  maxPositions :: int
  forceCloseAtEnd :: bool
  signalPriority :: SignalPriorityMode
  isMulti :: bool
  entriesMap :: "(string \<times> int list) list"
  exitsMap :: "(string \<times> int list) list"
  params :: "string list"
  result :: BacktestMetrics
  results :: "string \<rightharpoonup> BacktestMetrics"
  m_trades :: "Trade list"

text \<open>The scalar arguments that both constructors take after the four vectors, in the
  order of the parameter list.\<close>

record CtorArgs =
  arg_timeframe :: string
  arg_tradeType :: string
  arg_initialCapital :: real
  arg_positionSizePct :: real
  arg_commissionPct :: real
  arg_takeProfitPct :: real
  arg_stopLossPct :: real
  arg_minHoldingPeriod :: int
  arg_maxHoldingPeriod :: int
  arg_slippagePct :: real
  arg_maxPositions :: int
  arg_forceCloseAtEnd :: bool
  arg_signalPriorityMode :: string

text \<open>Default member initialisers of the two structs.\<close>

definition default_metrics :: BacktestMetrics where
  "default_metrics = \<lparr> startValue = 0, endValue = 0, totalReturn = 0, annualizedReturn = 0,
     maxDrawdown = 0, totalTrades = 0, winningTrades = 0, winRate = 0, profitFactor = 0,
     sharpeRatio = 0, sortinoRatio = 0, calmarRatio = 0, equityCurve = [] \<rparr>"

definition default_trade :: Trade where
  "default_trade = \<lparr> entryTime = 0, exitTime = 0, entryPrice = 0, exitPrice = 0, quantity = 0,
     profit = 0, profitPct = 0, direction = [], exitReason = [], entryIndex = 0, exitIndex = 0,
     entryFee = 0, exitFee = 0, entryInvestment = 0, currentValue = 0, exitValue = 0,
     tradeReturn = 0, positionType = [], position = 0, signal = 0 \<rparr>"

subsection \<open>Vectors and integer conversions\<close>

definition vec_at :: "'a list \<Rightarrow> nat \<Rightarrow> error + 'a" where
  "vec_at xs i = (if i < length xs then Inr (xs ! i) else Inl OutOfRange)"

definition vec_set :: "'a list \<Rightarrow> nat \<Rightarrow> 'a \<Rightarrow> error + 'a list" where
  "vec_set xs i v = (if i < length xs then Inr (xs[i := v]) else Inl OutOfRange)"

text \<open>\<open>resize(n, v)\<close> of a vector: truncate, or pad with copies of \<open>v\<close>.\<close>

definition resize :: "'a list \<Rightarrow> nat \<Rightarrow> 'a \<Rightarrow> 'a list" where
  "resize xs n v = take n xs @ replicate (n - length xs) v"

text \<open>Conversion of an integer value to the 64-bit unsigned \<open>size_t\<close> and to the 32-bit
  signed \<open>int\<close>.\<close>

definition to_size_t :: "int \<Rightarrow> nat" where
  "to_size_t x = nat (x mod 2 ^ 64)"

definition to_int32 :: "int \<Rightarrow> int" where
  "to_int32 x = (x + 2 ^ 31) mod 2 ^ 32 - 2 ^ 31"

section \<open>Strings and parsing (src/backtest.cpp)\<close>

fun exitReasonToString :: "ExitReason \<Rightarrow> string" where
  "exitReasonToString TAKE_PROFIT = ''Take Profit''"
| "exitReasonToString STOP_LOSS = ''Stop Loss''"
| "exitReasonToString EXIT_SIGNAL = ''Exit Signal''"
| "exitReasonToString MAX_HOLDING_PERIOD = ''Max Holding Period Reached''"
| "exitReasonToString FORCE_EXIT = ''Force Exit due to Negative Capital''"
| "exitReasonToString NONE = ''Unknown''"

definition getExitReasonString :: "ExitReason \<Rightarrow> string" where
  "getExitReasonString reason = exitReasonToString reason"

text \<open>\<open>::tolower\<close> in the C locale: the 26 upper-case letters map to lower case.\<close>

definition tolower :: "char \<Rightarrow> char" where
  "tolower c = (let n = (of_char c :: nat) in
     if 65 \<le> n \<and> n \<le> 90 then char_of (n + 32) else c)"

definition parseTradeType :: "string \<Rightarrow> TradeType" where
  "parseTradeType type =
     (let lowerType = map tolower type in
      if lowerType = ''long'' then LONG
      else if lowerType = ''short'' then SHORT
      else if lowerType = ''long_short'' then LONG_SHORT
      else LONG)"

definition parseSignalPriorityMode :: "string \<Rightarrow> SignalPriorityMode" where
  "parseSignalPriorityMode mode =
     (if mode = ''entry_first'' then ENTRY_FIRST
      else if mode = ''same_bar_trade'' then SAME_BAR_TRADE
      else EXIT_FIRST)"

definition getPeriodsPerYear :: "Backtest \<Rightarrow> int" where
  "getPeriodsPerYear bt =
     (case map_of [(''1d'', 365), (''1h'', 365 * 24), (''4h'', 365 * 6), (''30m'', 365 * 48),
                   (''15m'', 365 * 96), (''5m'', 365 * 288), (''1m'', 365 * 1440)] (interval bt) of
        Some p \<Rightarrow> p
      | None \<Rightarrow> 365)"

section \<open>Construction\<close>

text \<open>The member initialiser list shared by both constructors; the members it does not
  name are default-initialised.\<close>

definition init_members :: "CtorArgs \<Rightarrow> bool \<Rightarrow> (string \<times> int list) list \<Rightarrow>
    (string \<times> int list) list \<Rightarrow> Backtest" where
  "init_members a multi em xm =
     \<lparr> data = \<lparr> dates = [], prices = [], entries = [], exits = [], availableCapital = [],
                positionValue = [], totalCapital = [], dailyReturn = [],
                cumulativeReturn = [] \<rparr>,
       interval = arg_timeframe a,
       tradeType = parseTradeType (arg_tradeType a),
       startFund = arg_initialCapital a,
       eachTrade = arg_positionSizePct a,
       tradeFees = arg_commissionPct a,
       tpStop = arg_takeProfitPct a,
       slStop = arg_stopLossPct a,
       minHolding = arg_minHoldingPeriod a,
       maxHolding = arg_maxHoldingPeriod a,
       slippagePct = arg_slippagePct a,
       maxPositions = arg_maxPositions a,
       forceCloseAtEnd = arg_forceCloseAtEnd a,
       signalPriority = parseSignalPriorityMode (arg_signalPriorityMode a),
       isMulti = multi,
       entriesMap = em,
       exitsMap = xm,
       params = [],
       result = default_metrics,
       results = Map.empty,
       m_trades = [] \<rparr>"

text \<open>The storage initialisation at the end of both constructors.\<close>

definition init_storage :: "Backtest \<Rightarrow> nat \<Rightarrow> TimeSeriesData \<Rightarrow> TimeSeriesData" where
  "init_storage bt dataSize d =
     d \<lparr> availableCapital := resize (availableCapital d) dataSize (startFund bt),
         positionValue := resize (positionValue d) dataSize 0,
         totalCapital := resize (totalCapital d) dataSize (startFund bt),
         dailyReturn := resize (dailyReturn d) dataSize 0,
         cumulativeReturn := resize (cumulativeReturn d) dataSize 0 \<rparr>"

text \<open>The single-strategy constructor.\<close>

definition Backtest_single :: "real list \<Rightarrow> int list \<Rightarrow> int list \<Rightarrow> DateTime list \<Rightarrow>
    CtorArgs \<Rightarrow> error + Backtest" where
  "Backtest_single ps entrySignals exitSignals ds a =
     (let bt = init_members a False [] [] in
      if length ps \<noteq> length entrySignals \<or> length ps \<noteq> length exitSignals
         \<or> length ps \<noteq> length ds
      then Inl (InvalidArgument ''Price, entries, exits, and dates must have the same size'')
      else
        let d = (data bt) \<lparr> prices := ps, entries := entrySignals, exits := exitSignals,
                             dates := ds \<rparr>
        in Inr (bt \<lparr> data := init_storage bt (length ps) d \<rparr>))"

text \<open>The consistency loop of the multi-strategy constructor over \<open>entriesMap\<close>; it
  returns the collected \<open>params\<close>.\<close>

fun check_params :: "real list \<Rightarrow> DateTime list \<Rightarrow> (string \<times> int list) list \<Rightarrow>
    (string \<times> int list) list \<Rightarrow> string list \<Rightarrow> error + string list" where
  "check_params ps ds xm [] acc = Inr acc"
| "check_params ps ds xm ((param, es) # rest) acc =
     (case map_of xm param of
        None \<Rightarrow> Inl (InvalidArgument (''Exit signals not found for parameter: '' @ param))
      | Some xs \<Rightarrow>
          if length es \<noteq> length ps \<or> length xs \<noteq> length ps \<or> length ps \<noteq> length ds
          then Inl (InvalidArgument
                 (''Price, entries, exits, and dates must have the same size for parameter: ''
                  @ param))
          else check_params ps ds xm rest (acc @ [param]))"

text \<open>The multi-strategy constructor.\<close>

definition Backtest_multi :: "real list \<Rightarrow> (string \<times> int list) list \<Rightarrow>
    (string \<times> int list) list \<Rightarrow> DateTime list \<Rightarrow> CtorArgs \<Rightarrow> error + Backtest" where
  "Backtest_multi ps entrySignals exitSignals ds a =
     (let bt = init_members a True entrySignals exitSignals in
      case check_params ps ds (exitsMap bt) (entriesMap bt) (params bt) of
        Inl e \<Rightarrow> Inl e
      | Inr names \<Rightarrow>
          let d = (data bt) \<lparr> prices := ps, dates := ds \<rparr>
          in Inr (bt \<lparr> params := names, data := init_storage bt (length ps) d \<rparr>))"

section \<open>Errors as values\<close>

text \<open>Sequencing of two steps of which the first may fail: the failure is passed on.\<close>

definition bind_err :: "error + 'a \<Rightarrow> ('a \<Rightarrow> error + 'b) \<Rightarrow> error + 'b" where
  "bind_err m f = (case m of Inl e \<Rightarrow> Inl e | Inr x \<Rightarrow> f x)"

section \<open>The exit processor\<close>

definition isLongTrade :: "Trade \<Rightarrow> bool" where
  "isLongTrade t = (direction t = ''long'')"

text \<open>\<open>int holdingPeriod = i - currentTrade->entryIndex\<close>: the subtraction is done in
  \<open>size_t\<close> and the difference is converted to \<open>int\<close>.\<close>

definition holdingPeriod :: "nat \<Rightarrow> Trade \<Rightarrow> int" where
  "holdingPeriod i t = to_int32 (int (to_size_t (int i - entryIndex t)))"

definition pricePct :: "real \<Rightarrow> Trade \<Rightarrow> real" where
  "pricePct price t =
     (if isLongTrade t then (price - entryPrice t) / entryPrice t
      else (entryPrice t - price) / entryPrice t)"

text \<open>The chain of exit conditions; the result is the pair of \<open>shouldExit\<close> and
  \<open>exitReason\<close>.\<close>

definition exitCheck :: "Backtest \<Rightarrow> nat \<Rightarrow> real \<Rightarrow> int \<Rightarrow> Trade \<Rightarrow> bool \<times> ExitReason" where
  "exitCheck bt i price exitSignal t =
     (let isLong = isLongTrade t;
          hp = holdingPeriod i t;
          pct = pricePct price t
      in if tpStop bt > 0 \<and> pct \<ge> tpStop bt then (True, TAKE_PROFIT)
         else if slStop bt > 0 \<and> pct \<le> - slStop bt then (True, STOP_LOSS)
         else if maxHolding bt > 0 \<and> hp \<ge> maxHolding bt then (True, MAX_HOLDING_PERIOD)
         else if ((isLong \<and> exitSignal = - 1) \<or> (\<not> isLong \<and> exitSignal = 1))
                 \<and> hp \<ge> minHolding bt then (True, EXIT_SIGNAL)
         else (False, NONE))"

text \<open>The closing of one position at bar \<open>idx\<close>, price \<open>price\<close> and time \<open>date\<close>: slippage,
  profit, exit value and the update of the trade object. The source has this block twice,
  word for word, in \<open>processExitSignals\<close> and in the end-of-run closing of
  \<open>runSingleBacktest\<close>; they differ in the index, the price and the reason string.\<close>

definition closeTrade :: "Backtest \<Rightarrow> nat \<Rightarrow> DateTime \<Rightarrow> real \<Rightarrow> string \<Rightarrow> Trade \<Rightarrow> Trade" where
  "closeTrade bt idx date price reason t =
     (let isLong = isLongTrade t;
          xPrice = (if slippagePct bt > 0
                    then (if isLong then price * (1 - slippagePct bt)
                          else price * (1 + slippagePct bt))
                    else price);
          (prof, xValue) =
             (if isLong
              then (let ev = quantity t * xPrice * (1 - tradeFees bt)
                    in (ev - entryInvestment t, ev))
              else (let buybackCost = quantity t * xPrice;
                        xFee = buybackCost * tradeFees bt;
                        totalExitCost = buybackCost + xFee;
                        pr = entryInvestment t - totalExitCost
                    in (pr, entryInvestment t + pr)));
          profPct = prof / entryInvestment t * 100
      in t \<lparr> exitPrice := xPrice,
             exitTime := date,
             exitIndex := to_int32 (int idx),
             exitFee := quantity t * xPrice * tradeFees bt,
             exitValue := xValue,
             profit := prof,
             profitPct := profPct,
             exitReason := reason \<rparr>)"

text \<open>The iterator loop of \<open>processExitSignals\<close>. The accumulator holds \<open>hasExited\<close>, the
  positions already scanned and kept, the ledger and the free capital.\<close>

fun exitLoop :: "Backtest \<Rightarrow> TimeSeriesData \<Rightarrow> nat \<Rightarrow> real \<Rightarrow> int \<Rightarrow> Trade list \<Rightarrow>
    bool \<times> Trade list \<times> Trade list \<times> real \<Rightarrow> error + (bool \<times> Trade list \<times> Trade list \<times> real)" where
  "exitLoop bt sd i price exitSignal [] acc = Inr acc"
| "exitLoop bt sd i price exitSignal (t # rest) (hasExited, kept, trs, cap) =
     (case exitCheck bt i price exitSignal t of
        (True, reason) \<Rightarrow>
          bind_err (vec_at (dates sd) i) (\<lambda>date.
            let t' = closeTrade bt i date price (getExitReasonString reason) t
            in exitLoop bt sd i price exitSignal rest
                 (True, kept, trs @ [t'], cap + exitValue t'))
      | (False, reason) \<Rightarrow>
          exitLoop bt sd i price exitSignal rest (hasExited, kept @ [t], trs, cap))"

text \<open>The result is \<open>hasExited\<close> with the new values of the reference parameters
  \<open>currentTrades\<close>, \<open>trades\<close> and \<open>currentCapital\<close>.\<close>

definition processExitSignals :: "Backtest \<Rightarrow> Trade list \<Rightarrow> Trade list \<Rightarrow> TimeSeriesData \<Rightarrow>
    nat \<Rightarrow> real \<Rightarrow> int \<Rightarrow> real \<Rightarrow> error + (bool \<times> Trade list \<times> Trade list \<times> real)" where
  "processExitSignals bt cur trs sd i price exitSignal cap =
     exitLoop bt sd i price exitSignal cur (False, [], trs, cap)"

section \<open>The entry processor\<close>

definition openTrade :: "Backtest \<Rightarrow> nat \<Rightarrow> DateTime \<Rightarrow> real \<Rightarrow> bool \<Rightarrow> real \<Rightarrow> Trade" where
  "openTrade bt i date price isLong tradeAmount =
     (let ePrice = (if slippagePct bt > 0
                    then (if isLong then price * (1 + slippagePct bt)
                          else price * (1 - slippagePct bt))
                    else price);
          eFee = tradeAmount * tradeFees bt;
          actualInvestment = tradeAmount - eFee;
          qty = actualInvestment / ePrice
      in default_trade \<lparr> entryTime := date,
                         entryPrice := ePrice,
                         entryIndex := to_int32 (int i),
                         quantity := qty,
                         entryFee := eFee,
                         entryInvestment := tradeAmount,
                         direction := (if isLong then ''long'' else ''short''),
                         currentValue := actualInvestment \<rparr>)"

text \<open>The result is \<open>hasEntered\<close> with the new values of \<open>currentTrades\<close> and
  \<open>currentCapital\<close>.\<close>

definition processEntrySignals :: "Backtest \<Rightarrow> Trade list \<Rightarrow> TimeSeriesData \<Rightarrow> nat \<Rightarrow> real \<Rightarrow>
    int \<Rightarrow> real \<Rightarrow> error + (bool \<times> Trade list \<times> real)" where
  "processEntrySignals bt cur sd i price entrySignal cap =
     (if (maxPositions bt = 0 \<or> length cur < to_size_t (maxPositions bt))
         \<and> (entrySignal = 1 \<or> entrySignal = - 1)
      then
        let isLong = (entrySignal = 1);
            shouldTrade = (if tradeType bt = LONG \<and> isLong then True
                           else if tradeType bt = SHORT \<and> \<not> isLong then True
                           else if tradeType bt = LONG_SHORT then True
                           else False)
        in if shouldTrade
           then
             let tradeAmount = cap * eachTrade bt
             in if tradeAmount > 0
                then bind_err (vec_at (dates sd) i) (\<lambda>date.
                       Inr (True, cur @ [openTrade bt i date price isLong tradeAmount],
                            cap - tradeAmount))
                else Inr (True, cur, cap)
           else Inr (False, cur, cap)
      else Inr (False, cur, cap))"

section \<open>The bar loop of runSingleBacktest\<close>

text \<open>The local variables of \<open>runSingleBacktest\<close> that live across bars.\<close>

record SimState =
  currentTrades :: "Trade list"
  trades :: "Trade list"
  seriesData :: TimeSeriesData
  currentCapital :: real

text \<open>The update of the value of the open positions at the start of a bar.\<close>

definition markToMarket :: "real \<Rightarrow> Trade list \<Rightarrow> Trade list" where
  "markToMarket price ts = map (\<lambda>t. t \<lparr> currentValue := quantity t * price \<rparr>) ts"

definition sumCurrentValue :: "Trade list \<Rightarrow> real" where
  "sumCurrentValue ts = foldl (\<lambda>s t. s + currentValue t) 0 ts"

text \<open>The processing order of the two processors on one bar.\<close>

definition applySignals :: "Backtest \<Rightarrow> TimeSeriesData \<Rightarrow> nat \<Rightarrow> real \<Rightarrow> int \<Rightarrow> int \<Rightarrow>
    Trade list \<Rightarrow> Trade list \<Rightarrow> real \<Rightarrow> error + (Trade list \<times> Trade list \<times> real)" where
  "applySignals bt sd i price entrySignal exitSignal cur trs cap =
     (if signalPriority bt = EXIT_FIRST \<or> signalPriority bt = SAME_BAR_TRADE
      then
        bind_err (processExitSignals bt cur trs sd i price exitSignal cap)
          (\<lambda>(hasProcessedExit, cur1, trs1, cap1).
        bind_err (processEntrySignals bt cur1 sd i price entrySignal cap1)
          (\<lambda>(hasProcessedEntry, cur2, cap2).
        if signalPriority bt = SAME_BAR_TRADE \<and> hasProcessedEntry \<and> exitSignal \<noteq> 0
        then bind_err (processExitSignals bt cur2 trs1 sd i price exitSignal cap2)
               (\<lambda>(hasExited, cur3, trs3, cap3). Inr (cur3, trs3, cap3))
        else Inr (cur2, trs1, cap2)))
      else
        bind_err (processEntrySignals bt cur sd i price entrySignal cap)
          (\<lambda>(hasProcessedEntry, cur1, cap1).
        bind_err (processExitSignals bt cur1 trs sd i price exitSignal cap1)
          (\<lambda>(hasExited, cur2, trs2, cap2). Inr (cur2, trs2, cap2))))"



text \<open>The update of the capital series and of the bar return at the end of a bar.\<close>

definition recordBar :: "TimeSeriesData \<Rightarrow> nat \<Rightarrow> real \<Rightarrow> real \<Rightarrow> error + TimeSeriesData" where
  "recordBar sd i cap totalPositionValue =
     bind_err (vec_set (availableCapital sd) i cap) (\<lambda>av.
     bind_err (vec_set (positionValue sd) i totalPositionValue) (\<lambda>pv.
     bind_err (vec_set (totalCapital sd) i (cap + totalPositionValue)) (\<lambda>tc.
     let sd1 = sd \<lparr> availableCapital := av, positionValue := pv, totalCapital := tc \<rparr>
     in if i > 0
        then bind_err (vec_at (totalCapital sd1) (i - 1)) (\<lambda>prevTotal.
               if prevTotal > 0
               then bind_err (vec_at (totalCapital sd1) i) (\<lambda>cur.
                    bind_err (vec_set (dailyReturn sd1) i (cur / prevTotal - 1)) (\<lambda>dr.
                    Inr (sd1 \<lparr> dailyReturn := dr \<rparr>)))
               else Inr sd1)
        else Inr sd1)))"

text \<open>The body of the loop over the bars.\<close>

definition runBar :: "Backtest \<Rightarrow> int list \<Rightarrow> int list \<Rightarrow> nat \<Rightarrow> SimState \<Rightarrow> error + SimState" where
  "runBar bt es xs i st =
     bind_err (vec_at (prices (seriesData st)) i) (\<lambda>price.
     bind_err (vec_at es i) (\<lambda>entrySignal.
     bind_err (vec_at xs i) (\<lambda>exitSignal.
     bind_err (applySignals bt (seriesData st) i price entrySignal exitSignal
                 (markToMarket price (currentTrades st)) (trades st) (currentCapital st))
       (\<lambda>(cur, trs, cap).
     bind_err (recordBar (seriesData st) i cap (sumCurrentValue cur)) (\<lambda>sd.
     Inr \<lparr> currentTrades = cur, trades = trs, seriesData = sd, currentCapital = cap \<rparr>)))))"

function barLoop :: "Backtest \<Rightarrow> int list \<Rightarrow> int list \<Rightarrow> nat \<Rightarrow> nat \<Rightarrow> SimState \<Rightarrow>
    error + SimState" where
  "barLoop bt es xs dataSize i st =
     (if i < dataSize
      then bind_err (runBar bt es xs i st) (\<lambda>st'. barLoop bt es xs dataSize (Suc i) st')
      else Inr st)"
  by pat_completeness auto
termination
  by (relation "measure (\<lambda>(bt, es, xs, dataSize, i, st). dataSize - i)") auto

declare barLoop.simps [simp del]

section \<open>The end of runSingleBacktest\<close>

text \<open>The closing of the positions that are still open after the last bar. The trade
  objects are updated in place and stay in \<open>currentTrades\<close>; a copy goes to the ledger.\<close>

fun forceCloseLoop :: "Backtest \<Rightarrow> TimeSeriesData \<Rightarrow> nat \<Rightarrow> real \<Rightarrow> Trade list \<Rightarrow>
    Trade list \<times> Trade list \<times> real \<Rightarrow> error + (Trade list \<times> Trade list \<times> real)" where
  "forceCloseLoop bt sd lastIndex lastPrice [] acc = Inr acc"
| "forceCloseLoop bt sd lastIndex lastPrice (t # rest) (seen, trs, cap) =
     bind_err (vec_at (dates sd) lastIndex) (\<lambda>date.
       let t' = closeTrade bt lastIndex date lastPrice ''End of Backtest'' t
       in forceCloseLoop bt sd lastIndex lastPrice rest
            (seen @ [t'], trs @ [t'], cap + exitValue t'))"

text \<open>The block \<open>if (forceCloseAtEnd)\<close>: every position still open is closed at the last
  price.\<close>

definition closeOpenPositions :: "Backtest \<Rightarrow> TimeSeriesData \<Rightarrow> nat \<Rightarrow> real \<Rightarrow> Trade list \<Rightarrow>
    Trade list \<Rightarrow> real \<Rightarrow> error + (Trade list \<times> Trade list \<times> real)" where
  "closeOpenPositions bt sd lastIndex lastPrice cur trs cap =
     (if forceCloseAtEnd bt
      then forceCloseLoop bt sd lastIndex lastPrice cur ([], trs, cap)
      else Inr (cur, trs, cap))"

text \<open>The block \<open>if (!currentTrades.empty())\<close>: the capital state of the last bar is
  written again.\<close>

definition updateFinalState :: "Backtest \<Rightarrow> TimeSeriesData \<Rightarrow> nat \<Rightarrow> Trade list \<Rightarrow> real \<Rightarrow>
    error + TimeSeriesData" where
  "updateFinalState bt sd lastIndex cur cap =
     (if cur \<noteq> []
      then
        let finalPositionValue = (if \<not> forceCloseAtEnd bt then sumCurrentValue cur else 0)
        in bind_err (vec_set (availableCapital sd) lastIndex cap) (\<lambda>av.
           bind_err (vec_set (positionValue sd) lastIndex finalPositionValue) (\<lambda>pv.
           bind_err (vec_set (totalCapital sd) lastIndex (cap + finalPositionValue)) (\<lambda>tc.
           Inr (sd \<lparr> availableCapital := av, positionValue := pv, totalCapital := tc \<rparr>))))
      else Inr sd)"

text \<open>From \<open>size_t lastIndex = dataSize - 1\<close> to the update of the final capital state.
  The subtraction is done in \<open>size_t\<close>; the read of \<open>prices[lastIndex]\<close> is unconditional.\<close>

definition closeAtEnd :: "Backtest \<Rightarrow> nat \<Rightarrow> SimState \<Rightarrow> error + SimState" where
  "closeAtEnd bt dataSize st =
     (let lastIndex = to_size_t (int dataSize - 1);
          sd = seriesData st
      in bind_err (vec_at (prices sd) lastIndex) (\<lambda>lastPrice.
         bind_err (closeOpenPositions bt sd lastIndex lastPrice (currentTrades st) (trades st)
                     (currentCapital st))
           (\<lambda>(cur, trs, cap).
         bind_err (updateFinalState bt sd lastIndex cur cap) (\<lambda>sd'.
         Inr \<lparr> currentTrades = cur, trades = trs, seriesData = sd', currentCapital = cap \<rparr>))))"

function cumulativeLoop :: "nat \<Rightarrow> nat \<Rightarrow> real \<Rightarrow> TimeSeriesData \<Rightarrow> error + TimeSeriesData" where
  "cumulativeLoop dataSize i cum sd =
     (if i < dataSize
      then bind_err (vec_at (dailyReturn sd) i) (\<lambda>r.
             let cum' = cum * (1 + r)
             in bind_err (vec_set (cumulativeReturn sd) i ((cum' - 1) * 100)) (\<lambda>cr.
                  cumulativeLoop dataSize (Suc i) cum' (sd \<lparr> cumulativeReturn := cr \<rparr>)))
      else Inr sd)"
  by pat_completeness auto
termination
  by (relation "measure (\<lambda>(dataSize, i, cum, sd). dataSize - i)") auto

declare cumulativeLoop.simps [simp del]

text \<open>The body of \<open>runSingleBacktest\<close> up to the point where the ledger is stored: the
  ledger and the local copy \<open>seriesData\<close> as they are then.\<close>

definition simulate :: "Backtest \<Rightarrow> int list \<Rightarrow> int list \<Rightarrow> error + (Trade list \<times> TimeSeriesData)" where
  "simulate bt es xs =
     (let dataSize = length (prices (data bt));
          st0 = \<lparr> currentTrades = [], trades = [], seriesData = data bt,
                  currentCapital = startFund bt \<rparr>
      in bind_err (barLoop bt es xs dataSize 0 st0) (\<lambda>st1.
         bind_err (closeAtEnd bt dataSize st1) (\<lambda>st2.
         bind_err (cumulativeLoop dataSize 0 1 (seriesData st2)) (\<lambda>sd.
         Inr (trades st2, sd)))))"

section \<open>Metrics\<close>

text \<open>\<open>std::pow\<close> with a real exponent is modelled by \<open>powr\<close> (they agree on a positive
  base), \<open>std::sqrt\<close> by \<open>sqrt\<close>. There is no NaN among the reals, so the filters
  \<open>!std::isnan(r)\<close> keep every return.\<close>

definition calculateMaxDrawdown :: "real list \<Rightarrow> error + real" where
  "calculateMaxDrawdown ec =
     bind_err (vec_at ec 0) (\<lambda>peak0.
       Inr (fst (foldl (\<lambda>(maxDd, peak) v.
                          if v > peak then (maxDd, v)
                          else (max maxDd ((peak - v) / peak * 100), peak))
                   (0, peak0) (drop 1 ec))))"

definition excessReturnsOf :: "real list \<Rightarrow> real \<Rightarrow> int \<Rightarrow> real list" where
  "excessReturnsOf returns riskFreeRate periodsPerYear =
     (let periodRiskFreeRate = (1 + riskFreeRate) powr (1 / real_of_int periodsPerYear) - 1
      in map (\<lambda>r. r - periodRiskFreeRate) returns)"

definition epsilon :: real where
  "epsilon = 1 / 2 ^ 52"

definition calculateAnnualizedSharpeRatio :: "real list \<Rightarrow> real \<Rightarrow> int \<Rightarrow> real" where
  "calculateAnnualizedSharpeRatio returns riskFreeRate periodsPerYear =
     (if returns = [] then 0
      else
        let excessReturns = excessReturnsOf returns riskFreeRate periodsPerYear
        in if excessReturns = [] then 0
           else
             let meanExcessReturn = foldl (+) 0 excessReturns / real (length excessReturns);
                 variance = foldl (\<lambda>v r. v + (r - meanExcessReturn) ^ 2) 0 excessReturns
                            / real (length excessReturns);
                 stdDev = sqrt variance
             in if stdDev \<le> epsilon then 0
                else meanExcessReturn / stdDev * sqrt (real_of_int periodsPerYear))"

definition calculateSortinoRatio :: "real list \<Rightarrow> real \<Rightarrow> int \<Rightarrow> real" where
  "calculateSortinoRatio returns riskFreeRate periodsPerYear =
     (if returns = [] then 0
      else
        let excessReturns = excessReturnsOf returns riskFreeRate periodsPerYear
        in if excessReturns = [] then 0
           else
             let meanExcessReturn = foldl (+) 0 excessReturns / real (length excessReturns);
                 (sumSquaredDownside, downsideCount) =
                    foldl (\<lambda>(s, c) r. if r < 0 then (s + r ^ 2, c + 1) else (s, c))
                      (0, 0 :: int) excessReturns
             in if downsideCount = 0 \<or> sumSquaredDownside \<le> epsilon
                then (if meanExcessReturn > 0 then 100 else 0)
                else
                  let downsideDeviation = sqrt (sumSquaredDownside / real_of_int downsideCount)
                  in meanExcessReturn / downsideDeviation * sqrt (real_of_int periodsPerYear))"

definition calculateCalmarRatio :: "real \<Rightarrow> real \<Rightarrow> real" where
  "calculateCalmarRatio annRet maxDd =
     (if maxDd < 0.01 then (if annRet > 0 then 100 else 0) else annRet / maxDd)"

function equityCurveLoop :: "TimeSeriesData \<Rightarrow> nat \<Rightarrow> (DateTime \<times> real) list \<Rightarrow>
    error + (DateTime \<times> real) list" where
  "equityCurveLoop d i acc =
     (if i < length (totalCapital d)
      then bind_err (vec_at (dates d) i) (\<lambda>date.
           bind_err (vec_at (totalCapital d) i) (\<lambda>v.
           equityCurveLoop d (i + max 1 (length (totalCapital d) div 1000)) (acc @ [(date, v)])))
      else Inr acc)"
  by pat_completeness auto
termination
  by (relation "measure (\<lambda>(d, i, acc). length (totalCapital d) - i)") auto

declare equityCurveLoop.simps [simp del]

definition calculateMetrics :: "Backtest \<Rightarrow> TimeSeriesData \<Rightarrow> Trade list \<Rightarrow> real \<Rightarrow>
    error + BacktestMetrics" where
  "calculateMetrics bt d trs riskFreeRate =
     (if totalCapital d = [] then Inr default_metrics
      else
        let sv = startFund bt;
            ev = last (totalCapital d);
            totRet = (ev / sv - 1) * 100;
            nTrades = to_int32 (int (length trs));
            (winning, totalProfit, totalLoss) =
               foldl (\<lambda>(w, tp, tl) t.
                        if profit t > 0 then (w + 1, tp + profit t, tl)
                        else (w, tp, tl - profit t))
                 (0 :: int, 0, 0) trs;
            wRate = (if nTrades > 0
                     then real_of_int winning / real_of_int nTrades * 100 else 0);
            pFactor = (if totalLoss > 0 then totalProfit / totalLoss else 0)
        in bind_err (calculateMaxDrawdown (totalCapital d)) (\<lambda>maxDd.
           let periodsPerYear = getPeriodsPerYear bt;
               years = real (length (totalCapital d)) / real_of_int periodsPerYear;
               annRet = (if years > 0 \<and> totRet \<noteq> 0
                         then ((1 + totRet / 100) powr (1 / years) - 1) * 100 else 0)
           in bind_err (equityCurveLoop d 0 []) (\<lambda>curve.
              Inr \<lparr> startValue = sv, endValue = ev, totalReturn = totRet,
                    annualizedReturn = annRet, maxDrawdown = maxDd, totalTrades = nTrades,
                    winningTrades = winning, winRate = wRate, profitFactor = pFactor,
                    sharpeRatio = calculateAnnualizedSharpeRatio (dailyReturn d) riskFreeRate
                                    periodsPerYear,
                    sortinoRatio = calculateSortinoRatio (dailyReturn d) riskFreeRate
                                     periodsPerYear,
                    calmarRatio = calculateCalmarRatio annRet maxDd,
                    equityCurve = curve \<rparr>)))"

section \<open>Running\<close>

text \<open>\<open>runSingleBacktest\<close> stores the ledger in the object and returns the metrics (the
  default risk-free rate is 0).\<close>

definition runSingleBacktest :: "Backtest \<Rightarrow> int list \<Rightarrow> int list \<Rightarrow>
    error + (BacktestMetrics \<times> Backtest)" where
  "runSingleBacktest bt es xs =
     bind_err (simulate bt es xs) (\<lambda>(trs, sd).
     bind_err (calculateMetrics bt sd trs 0) (\<lambda>m.
     Inr (m, bt \<lparr> m_trades := trs \<rparr>)))"

text \<open>\<open>entriesMap[param]\<close>: the vector stored under the key (an empty one for a new key).\<close>

definition map_index :: "(string \<times> int list) list \<Rightarrow> string \<Rightarrow> int list" where
  "map_index m k = (case map_of m k of Some v \<Rightarrow> v | None \<Rightarrow> [])"

fun runParams :: "Backtest \<Rightarrow> string list \<Rightarrow> error + Backtest" where
  "runParams bt [] = Inr bt"
| "runParams bt (param # rest) =
     bind_err (runSingleBacktest bt (map_index (entriesMap bt) param)
                 (map_index (exitsMap bt) param)) (\<lambda>(m, bt').
       runParams (bt' \<lparr> results := (results bt')(param \<mapsto> m) \<rparr>) rest)"

definition runBacktest :: "Backtest \<Rightarrow> error + Backtest" where
  "runBacktest bt =
     (if isMulti bt then runParams bt (params bt)
      else bind_err (runSingleBacktest bt (entries (data bt)) (exits (data bt))) (\<lambda>(m, bt').
             Inr (bt' \<lparr> result := m \<rparr>)))"

definition run :: "Backtest \<Rightarrow> error + Backtest" where
  "run bt = runBacktest bt"

definition getResult :: "Backtest \<Rightarrow> BacktestMetrics" where
  "getResult bt = result bt"

definition getTrades :: "Backtest \<Rightarrow> Trade list" where
  "getTrades bt = m_trades bt"

text \<open>The default arguments of the constructors (include/backtest.h).\<close>

definition defaultArgs :: CtorArgs where
  "defaultArgs = \<lparr> arg_timeframe = ''1d'', arg_tradeType = ''long_only'',
     arg_initialCapital = 10000, arg_positionSizePct = 1, arg_commissionPct = 0.001,
     arg_takeProfitPct = 0, arg_stopLossPct = 0, arg_minHoldingPeriod = 1,
     arg_maxHoldingPeriod = 0, arg_slippagePct = 0, arg_maxPositions = 10,
     arg_forceCloseAtEnd = True, arg_signalPriorityMode = ''exit_first'' \<rparr>"

section \<open>Auxiliary definitions for the statements\<close>

subsection \<open>Construction followed by a run\<close>

text \<open>Construction of a single-strategy object followed by the body of
  \<open>runSingleBacktest\<close> on its own signals, as \<open>run\<close> calls it.\<close>

definition backtest_simulate :: "real list \<Rightarrow> int list \<Rightarrow> int list \<Rightarrow> DateTime list \<Rightarrow>
    CtorArgs \<Rightarrow> error + (Trade list \<times> TimeSeriesData)" where
  "backtest_simulate ps es xs ds a =
     bind_err (Backtest_single ps es xs ds a)
       (\<lambda>bt. simulate bt (entries (data bt)) (exits (data bt)))"

subsection \<open>The exit pass in closed form\<close>

text \<open>Whether the exit conditions close a position, and the closed copy that goes to the
  ledger.\<close>

definition exiting :: "Backtest \<Rightarrow> nat \<Rightarrow> real \<Rightarrow> int \<Rightarrow> Trade \<Rightarrow> bool" where
  "exiting bt i price exitSignal t = fst (exitCheck bt i price exitSignal t)"

definition closedBy :: "Backtest \<Rightarrow> TimeSeriesData \<Rightarrow> nat \<Rightarrow> real \<Rightarrow> int \<Rightarrow> Trade \<Rightarrow> Trade" where
  "closedBy bt sd i price exitSignal t =
     closeTrade bt i (dates sd ! i) price
       (getExitReasonString (snd (exitCheck bt i price exitSignal t))) t"

subsection \<open>The exit rules as the specification words them\<close>

text \<open>Section 4.3 of the specification: the price return in the direction of the trade, the
  holding period \<open>i - entry_index\<close>, and the four rules in their order (take profit, stop
  loss, max holding, exit signal with the minimum holding period); the first rule that
  matches decides.\<close>

definition spec_price_return :: "real \<Rightarrow> Trade \<Rightarrow> real" where
  "spec_price_return price t =
     (if direction t = ''long'' then (price - entryPrice t) / entryPrice t
      else (entryPrice t - price) / entryPrice t)"

definition spec_holding_period :: "nat \<Rightarrow> Trade \<Rightarrow> int" where
  "spec_holding_period i t = int i - entryIndex t"

definition spec_exit_rules :: "Backtest \<Rightarrow> nat \<Rightarrow> real \<Rightarrow> int \<Rightarrow> Trade \<Rightarrow> (ExitReason \<times> bool) list" where
  "spec_exit_rules bt i price exitSignal t =
     [(TAKE_PROFIT, tpStop bt > 0 \<and> spec_price_return price t \<ge> tpStop bt),
      (STOP_LOSS, slStop bt > 0 \<and> spec_price_return price t \<le> - slStop bt),
      (MAX_HOLDING_PERIOD, maxHolding bt > 0 \<and> spec_holding_period i t \<ge> maxHolding bt),
      (EXIT_SIGNAL, ((direction t = ''long'' \<and> exitSignal = - 1)
                     \<or> (direction t = ''short'' \<and> exitSignal = 1))
                    \<and> spec_holding_period i t \<ge> minHolding bt)]"

definition spec_first_match :: "(ExitReason \<times> bool) list \<Rightarrow> ExitReason option" where
  "spec_first_match rules = map_option fst (find snd rules)"

subsection \<open>The bar orders as the specification words them\<close>

text \<open>Section 4.1 of the specification: \<open>exit_first\<close> runs the exit processor, then the entry
  processor; \<open>same_bar_trade\<close> runs Exit, then Entry, then Exit again.\<close>

definition spec_exit_entry :: "Backtest \<Rightarrow> TimeSeriesData \<Rightarrow> nat \<Rightarrow> real \<Rightarrow> int \<Rightarrow> int \<Rightarrow>
    Trade list \<Rightarrow> Trade list \<Rightarrow> real \<Rightarrow> error + (Trade list \<times> Trade list \<times> real)" where
  "spec_exit_entry bt sd i price entrySignal exitSignal cur trs cap =
     bind_err (processExitSignals bt cur trs sd i price exitSignal cap)
       (\<lambda>(hasExited, cur1, trs1, cap1).
     bind_err (processEntrySignals bt cur1 sd i price entrySignal cap1)
       (\<lambda>(hasEntered, cur2, cap2). Inr (cur2, trs1, cap2)))"

definition spec_exit_entry_exit :: "Backtest \<Rightarrow> TimeSeriesData \<Rightarrow> nat \<Rightarrow> real \<Rightarrow> int \<Rightarrow> int \<Rightarrow>
    Trade list \<Rightarrow> Trade list \<Rightarrow> real \<Rightarrow> error + (Trade list \<times> Trade list \<times> real)" where
  "spec_exit_entry_exit bt sd i price entrySignal exitSignal cur trs cap =
     bind_err (spec_exit_entry bt sd i price entrySignal exitSignal cur trs cap)
       (\<lambda>(cur2, trs1, cap2).
     bind_err (processExitSignals bt cur2 trs1 sd i price exitSignal cap2)
       (\<lambda>(hasExited, cur3, trs3, cap3). Inr (cur3, trs3, cap3)))"

subsection \<open>Predicates of the proofs\<close>

text \<open>A named pair of the multi-strategy constructor that its consistency loop rejects.\<close>

definition bad_param :: "real list \<Rightarrow> DateTime list \<Rightarrow> (string \<times> int list) list \<Rightarrow>
    string \<times> int list \<Rightarrow> bool" where
  "bad_param ps ds xm e =
     (case map_of xm (fst e) of
        None \<Rightarrow> True
      | Some w \<Rightarrow> length (snd e) \<noteq> length ps \<or> length w \<noteq> length ps
                  \<or> length ps \<noteq> length ds)"

text \<open>All vectors of the series have length \<open>n\<close> and the capital identity holds at every
  index.\<close>

definition series_ok :: "nat \<Rightarrow> TimeSeriesData \<Rightarrow> bool" where
  "series_ok n sd =
     (length (dates sd) = n \<and> length (prices sd) = n
      \<and> length (availableCapital sd) = n \<and> length (positionValue sd) = n
      \<and> length (totalCapital sd) = n \<and> length (dailyReturn sd) = n
      \<and> length (cumulativeReturn sd) = n
      \<and> (\<forall>j < n. totalCapital sd ! j = availableCapital sd ! j + positionValue sd ! j))"

text \<open>The strings of an open position and of a trade of the ledger.\<close>

definition open_ok :: "Trade \<Rightarrow> bool" where
  "open_ok t = (direction t = ''long'' \<or> direction t = ''short'')"

definition closed_ok :: "Trade \<Rightarrow> bool" where
  "closed_ok t =
     (open_ok t \<and> exitReason t \<in> {''Take Profit'', ''Stop Loss'', ''Exit Signal'',
                                     ''Max Holding Period Reached'', ''End of Backtest''})"

definition ledger_inv :: "SimState \<Rightarrow> bool" where
  "ledger_inv st = ((\<forall>t \<in> set (currentTrades st). open_ok t) \<and> (\<forall>t \<in> set (trades st). closed_ok t))"

subsection \<open>Example objects\<close>

text \<open>One long round trip (scenario S1 of the specification), a same-bar configuration with
  slippage and a stop loss, and a same-bar configuration without capital.\<close>

definition example_long_round_trip :: Backtest where
  "example_long_round_trip = projr (Backtest_single [100, 110] [1, 0] [0, - 1] [0, 1]
     (defaultArgs \<lparr> arg_tradeType := ''long'', arg_initialCapital := 1000,
        arg_commissionPct := 0 \<rparr>))"

definition example_same_bar :: Backtest where
  "example_same_bar = projr (Backtest_single [100] [1] [0] [0]
     (defaultArgs \<lparr> arg_tradeType := ''long'', arg_initialCapital := 1000,
        arg_commissionPct := 0, arg_stopLossPct := 0.05, arg_slippagePct := 0.1,
        arg_signalPriorityMode := ''same_bar_trade'' \<rparr>))"


section \<open>Basic facts\<close>

lemma bind_err_Inr [simp]: "bind_err (Inr x) f = f x"
  by (simp add: bind_err_def)

lemma bind_err_Inl [simp]: "bind_err (Inl e) f = Inl e"
  by (simp add: bind_err_def)

lemma bind_err_eq_Inr: "(bind_err m f = Inr y) = (\<exists>x. m = Inr x \<and> f x = Inr y)"
  by (cases m) simp_all

lemma vec_at_in_range [simp]: "i < length xs \<Longrightarrow> vec_at xs i = Inr (xs ! i)"
  by (simp add: vec_at_def)

lemma vec_at_out_of_range [simp]: "\<not> i < length xs \<Longrightarrow> vec_at xs i = Inl OutOfRange"
  by (simp add: vec_at_def)

lemma vec_set_in_range [simp]: "i < length xs \<Longrightarrow> vec_set xs i v = Inr (xs[i := v])"
  by (simp add: vec_set_def)

section \<open>Evaluation on concrete inputs\<close>

lemmas ctor_defs = Backtest_single_def init_members_def init_storage_def resize_def
  parseTradeType_def tolower_def parseSignalPriorityMode_def defaultArgs_def

lemmas bar_defs = runBar_def vec_at_def vec_set_def bind_err_def applySignals_def
  processExitSignals_def processEntrySignals_def exitCheck_def isLongTrade_def
  holdingPeriod_def pricePct_def closeTrade_def openTrade_def default_trade_def
  markToMarket_def sumCurrentValue_def recordBar_def to_size_t_def to_int32_def
  getExitReasonString_def Let_def

lemmas sim_defs = simulate_def barLoop.simps closeAtEnd_def closeOpenPositions_def
  updateFinalState_def cumulativeLoop.simps

lemmas run_defs = run_def runBacktest_def runSingleBacktest_def calculateMetrics_def
  calculateMaxDrawdown_def equityCurveLoop.simps getPeriodsPerYear_def getTrades_def
  getResult_def

text \<open>
  Claim C4. On the empty price series a run is said to return zero-initialised metrics and
  an empty ledger without reading \<open>price[N - 1]\<close>. The code does not get that far: for every
  choice of the scalar arguments, construction on empty vectors succeeds and the run then
  computes \<open>lastIndex = 0 - 1\<close> in \<open>size_t\<close> and reads \<open>prices[lastIndex]\<close> outside the empty
  vector, before the guard of \<open>calculateMetrics\<close> is reached.
\<close>

theorem empty_series_reads_out_of_range:
  "bind_err (Backtest_single [] [] [] [] a) run = Inl OutOfRange"
  by (simp add: ctor_defs bar_defs sim_defs run_defs)

text \<open>
  Claim C8. Scenario S4: prices 100 and 90, a short entry on the first bar and the exit signal
  for shorts on the second, trade type short, initial capital 1000, commission 0.001 and the
  defaults otherwise. The run produces exactly one trade with entry fee 1.0, quantity 9.99,
  buy-back cost 899.10, exit fee 0.89910 and profit 100.00090, and the end value of the
  metrics is 1100.00090.
\<close>

theorem scenario_short_round_trip_with_fees:
  "\<exists>bt'. bind_err (Backtest_single [100, 90] [- 1, 0] [0, 1] [d0, d1]
            (defaultArgs \<lparr> arg_tradeType := ''short'', arg_initialCapital := 1000,
               arg_positionSizePct := 1, arg_commissionPct := 0.001, arg_slippagePct := 0,
               arg_minHoldingPeriod := 1 \<rparr>)) run = Inr bt'
     \<and> (\<exists>t. getTrades bt' = [t] \<and> entryFee t = 1.0 \<and> quantity t = 9.99
            \<and> quantity t * exitPrice t = 899.10 \<and> exitFee t = 0.89910
            \<and> profit t = 100.00090)
     \<and> endValue (getResult bt') = 1100.00090"
  by (simp add: ctor_defs bar_defs sim_defs run_defs)

text \<open>
  Claim C1. The value of an open short at a bar is said to be
  \<open>entry_investment + (entry_price - price) * quantity\<close>. The mark-to-market step assigns
  \<open>quantity * price\<close> to every open position, long or short. Input: prices 100, 90, 90, a short
  entry on the first bar, no exit signal, trade type short, initial capital 1000, no
  commission, no closing at the end. The short of 10 units opened at 100 with an entry
  investment of 1000 is valued 900 at the second bar, where the formula gives 1100, and the
  recorded total capital is 900.
\<close>

theorem short_marked_as_quantity_times_price:
  "\<exists>bt trs sd. Backtest_single [100, 90, 90] [- 1, 0, 0] [0, 0, 0] [d0, d1, d2]
            (defaultArgs \<lparr> arg_tradeType := ''short'', arg_initialCapital := 1000,
               arg_commissionPct := 0, arg_forceCloseAtEnd := False \<rparr>) = Inr bt
     \<and> simulate bt (entries (data bt)) (exits (data bt)) = Inr (trs, sd)
     \<and> availableCapital sd = [0, 0, 0]
     \<and> positionValue sd = [1000, 10 * 90, 10 * 90]
     \<and> totalCapital sd = [1000, 900, 900]
     \<and> positionValue sd ! 1 \<noteq> 1000 + (100 - 90) * 10"
  by (simp add: ctor_defs bar_defs sim_defs)

text \<open>The three evaluations above at fixed arguments and dates.\<close>

theorem empty_series_reads_out_of_range_witness:
  "bind_err (Backtest_single [] [] [] [] defaultArgs) run = Inl OutOfRange"
  by (rule empty_series_reads_out_of_range)

theorem scenario_short_round_trip_with_fees_witness:
  "\<exists>bt'. bind_err (Backtest_single [100, 90] [- 1, 0] [0, 1] [0, 1]
            (defaultArgs \<lparr> arg_tradeType := ''short'', arg_initialCapital := 1000,
               arg_positionSizePct := 1, arg_commissionPct := 0.001, arg_slippagePct := 0,
               arg_minHoldingPeriod := 1 \<rparr>)) run = Inr bt'
     \<and> (\<exists>t. getTrades bt' = [t] \<and> entryFee t = 1.0 \<and> quantity t = 9.99
            \<and> quantity t * exitPrice t = 899.10 \<and> exitFee t = 0.89910
            \<and> profit t = 100.00090)
     \<and> endValue (getResult bt') = 1100.00090"
  by (rule scenario_short_round_trip_with_fees)

theorem short_marked_as_quantity_times_price_witness:
  "\<exists>bt trs sd. Backtest_single [100, 90, 90] [- 1, 0, 0] [0, 0, 0] [0, 1, 2]
            (defaultArgs \<lparr> arg_tradeType := ''short'', arg_initialCapital := 1000,
               arg_commissionPct := 0, arg_forceCloseAtEnd := False \<rparr>) = Inr bt
     \<and> simulate bt (entries (data bt)) (exits (data bt)) = Inr (trs, sd)
     \<and> availableCapital sd = [0, 0, 0]
     \<and> positionValue sd = [1000, 10 * 90, 10 * 90]
     \<and> totalCapital sd = [1000, 900, 900]
     \<and> positionValue sd ! 1 \<noteq> 1000 + (100 - 90) * 10"
  by (rule short_marked_as_quantity_times_price)

section \<open>The exit processor: order of the conditions and capital\<close>

lemma exitLoop_result:
  "exitLoop bt sd i price xs ts (he, kept, trs, cap) =
     (if (\<exists>t \<in> set ts. exiting bt i price xs t) \<and> \<not> i < length (dates sd)
      then Inl OutOfRange
      else Inr (he \<or> (\<exists>t \<in> set ts. exiting bt i price xs t),
                kept @ filter (\<lambda>t. \<not> exiting bt i price xs t) ts,
                trs @ map (closedBy bt sd i price xs) (filter (exiting bt i price xs) ts),
                cap + sum_list (map exitValue
                        (map (closedBy bt sd i price xs) (filter (exiting bt i price xs) ts)))))"
proof (induction ts arbitrary: he kept trs cap)
  case Nil
  then show ?case by simp
next
  case (Cons t ts)
  obtain b r where c: "exitCheck bt i price xs t = (b, r)"
    by (cases "exitCheck bt i price xs t")
  show ?case
  proof (cases b)
    case True
    with c have e: "exiting bt i price xs t" by (simp add: exiting_def)
    show ?thesis
    proof (cases "i < length (dates sd)")
      case inr: True
      show ?thesis
        using c True e inr Cons.IH
        by (simp add: closedBy_def Let_def add.assoc)
    next
      case False
      then show ?thesis using c True e by simp
    qed
  next
    case False
    with c have e: "\<not> exiting bt i price xs t" by (simp add: exiting_def)
    show ?thesis using c False e Cons.IH by simp
  qed
qed

lemma holdingPeriod_in_range:
  assumes "0 \<le> entryIndex t" "entryIndex t \<le> int i" "int i < 2 ^ 31"
  shows "holdingPeriod i t = int i - entryIndex t"
proof -
  let ?d = "int i - entryIndex t"
  have d: "0 \<le> ?d" "?d < 2 ^ 31" using assms by auto
  have "?d mod 2 ^ 64 = ?d" using d by (simp add: mod_pos_pos_trivial)
  then have s: "int (to_size_t ?d) = ?d" using d by (simp add: to_size_t_def)
  have "(?d + 2 ^ 31) mod 2 ^ 32 = ?d + 2 ^ 31" using d by (simp add: mod_pos_pos_trivial)
  then have "to_int32 ?d = ?d" by (simp add: to_int32_def)
  with s show ?thesis by (simp add: holdingPeriod_def)
qed

lemma exitCheck_refines_spec:
  assumes "direction t = ''long'' \<or> direction t = ''short''"
    and "0 \<le> entryIndex t" "entryIndex t \<le> int i" "int i < 2 ^ 31"
  shows "exitCheck bt i price xs t =
     (case spec_first_match (spec_exit_rules bt i price xs t) of
        None \<Rightarrow> (False, NONE) | Some r \<Rightarrow> (True, r))"
proof -
  have hp: "holdingPeriod i t = spec_holding_period i t"
    using assms(2-4) by (simp add: holdingPeriod_in_range spec_holding_period_def)
  have pr: "pricePct price t = spec_price_return price t"
    by (simp add: pricePct_def spec_price_return_def isLongTrade_def)
  have nl: "(\<not> isLongTrade t) = (direction t = ''short'')"
    using assms(1) by (auto simp: isLongTrade_def)
  show ?thesis
    using assms(1)
    by (auto simp: exitCheck_def spec_exit_rules_def spec_first_match_def hp pr Let_def
          isLongTrade_def)
qed

lemma exitCheck_reason:
  "fst (exitCheck bt i price xs t) \<Longrightarrow>
     snd (exitCheck bt i price xs t) \<in> {TAKE_PROFIT, STOP_LOSS, MAX_HOLDING_PERIOD, EXIT_SIGNAL}"
  by (auto simp: exitCheck_def Let_def split: if_splits)

lemma exitCheck_signal_min_holding:
  "exitCheck bt i price xs t = (True, EXIT_SIGNAL) \<Longrightarrow> minHolding bt \<le> holdingPeriod i t"
  by (simp add: exitCheck_def Let_def split: if_splits)

lemma exitCheck_other_any_holding:
  "exitCheck bt i price xs t = (True, r) \<Longrightarrow> r \<noteq> EXIT_SIGNAL \<Longrightarrow>
     exitCheck (bt \<lparr> minHolding := m \<rparr>) i price xs t = (True, r)"
  by (simp add: exitCheck_def Let_def split: if_splits)

lemma processExitSignals_result:
  "processExitSignals bt cur trs sd i price xs cap =
     (if (\<exists>t \<in> set cur. exiting bt i price xs t) \<and> \<not> i < length (dates sd)
      then Inl OutOfRange
      else Inr ((\<exists>t \<in> set cur. exiting bt i price xs t),
                filter (\<lambda>t. \<not> exiting bt i price xs t) cur,
                trs @ map (closedBy bt sd i price xs) (filter (exiting bt i price xs) cur),
                cap + sum_list (map exitValue
                        (map (closedBy bt sd i price xs) (filter (exiting bt i price xs) cur)))))"
  by (simp add: processExitSignals_def exitLoop_result)

lemma processExitSignals_no_exit:
  "\<forall>t \<in> set cur. \<not> exiting bt i price xs t \<Longrightarrow>
     processExitSignals bt cur trs sd i price xs cap = Inr (False, cur, trs, cap)"
  by (simp add: processExitSignals_result)

lemma processEntrySignals_not_entered:
  "processEntrySignals bt cur sd i price es cap = Inr (False, cur', cap') \<Longrightarrow>
     cur' = cur \<and> cap' = cap"
  by (auto simp: processEntrySignals_def Let_def bind_err_eq_Inr split: if_splits)

lemma same_bar_trade_passes:
  assumes sbt: "signalPriority bt = SAME_BAR_TRADE"
  shows "applySignals bt sd i price es xs cur trs cap =
     (if xs \<noteq> 0 then spec_exit_entry_exit bt sd i price es xs cur trs cap
      else spec_exit_entry bt sd i price es xs cur trs cap)"
proof (cases "xs = 0")
  case True
  then show ?thesis
    using sbt by (simp add: applySignals_def spec_exit_entry_def)
next
  case nz: False
  have goal: "applySignals bt sd i price es xs cur trs cap =
      spec_exit_entry_exit bt sd i price es xs cur trs cap"
  proof (cases "processExitSignals bt cur trs sd i price xs cap")
    case (Inl e)
    then show ?thesis
      using sbt by (simp add: applySignals_def spec_exit_entry_exit_def spec_exit_entry_def)
  next
    case (Inr r1)
    obtain he cur1 trs1 cap1 where r1: "r1 = (he, cur1, trs1, cap1)" by (cases r1) auto
    have cur1: "cur1 = filter (\<lambda>t. \<not> exiting bt i price xs t) cur"
      using Inr r1 by (simp add: processExitSignals_result split: if_splits)
    show ?thesis
    proof (cases "processEntrySignals bt cur1 sd i price es cap1")
      case (Inl e)
      then show ?thesis
        using sbt Inr r1
        by (simp add: applySignals_def spec_exit_entry_exit_def spec_exit_entry_def)
    next
      case r2: (Inr r2)
      obtain hn cur2 cap2 where r2': "r2 = (hn, cur2, cap2)" by (cases r2) auto
      show ?thesis
      proof (cases hn)
        case True
        then show ?thesis
          using sbt nz Inr r1 r2 r2'
          by (simp add: applySignals_def spec_exit_entry_exit_def spec_exit_entry_def)
      next
        case False
        have same: "cur2 = cur1 \<and> cap2 = cap1"
          using r2 r2' False
            processEntrySignals_not_entered [of bt cur1 sd i price es cap1 cur2 cap2]
          by simp
        have "\<forall>t \<in> set cur2. \<not> exiting bt i price xs t"
          using same cur1 by simp
        then have "processExitSignals bt cur2 trs1 sd i price xs cap2 =
            Inr (False, cur2, trs1, cap2)"
          by (rule processExitSignals_no_exit)
        then show ?thesis
          using sbt Inr r1 r2 r2' False
          by (simp add: applySignals_def spec_exit_entry_exit_def spec_exit_entry_def)
      qed
    qed
  qed
  with nz show ?thesis by simp
qed

text \<open>
  Claim C6. For an open position at a bar the exit processor decides by the four conditions
  in the order take profit, stop loss, max holding, exit signal, and the first that matches
  gives the exit and its reason: on bar indices that fit an \<open>int\<close> the decision of the code is
  the first match of the specification's rule list. A signal-driven exit only occurs with a
  holding period of at least \<open>minHolding\<close>; an exit by take profit, stop loss or max holding
  stays the same exit whatever \<open>minHolding\<close> is. One pass of the exit processor keeps exactly
  the positions without a match and appends, in order, the closed copies of the others with
  the reason string of their first match.
\<close>

theorem exit_conditions_order_and_min_holding:
  "((direction t = ''long'' \<or> direction t = ''short'')
      \<and> 0 \<le> entryIndex t \<and> entryIndex t \<le> int i \<and> int i < 2 ^ 31 \<longrightarrow>
      exitCheck bt i price xs t =
        (case spec_first_match (spec_exit_rules bt i price xs t) of
           None \<Rightarrow> (False, NONE) | Some r \<Rightarrow> (True, r)))
   \<and> (exitCheck bt i price xs t = (True, EXIT_SIGNAL) \<longrightarrow> minHolding bt \<le> holdingPeriod i t)
   \<and> (\<forall>r m. exitCheck bt i price xs t = (True, r) \<and> r \<noteq> EXIT_SIGNAL \<longrightarrow>
          exitCheck (bt \<lparr> minHolding := m \<rparr>) i price xs t = (True, r))
   \<and> (\<forall>he cur' trs' cap'.
        processExitSignals bt cur trs sd i price xs cap = Inr (he, cur', trs', cap') \<longrightarrow>
          cur' = filter (\<lambda>t. \<not> fst (exitCheck bt i price xs t)) cur
          \<and> trs' = trs @ map (\<lambda>t. closeTrade bt i (dates sd ! i) price
                                  (exitReasonToString (snd (exitCheck bt i price xs t))) t)
                           (filter (\<lambda>t. fst (exitCheck bt i price xs t)) cur))"
proof (intro conjI allI impI)
  assume "(direction t = ''long'' \<or> direction t = ''short'')
      \<and> 0 \<le> entryIndex t \<and> entryIndex t \<le> int i \<and> int i < 2 ^ 31"
  then show "exitCheck bt i price xs t =
        (case spec_first_match (spec_exit_rules bt i price xs t) of
           None \<Rightarrow> (False, NONE) | Some r \<Rightarrow> (True, r))"
    by (simp add: exitCheck_refines_spec)
next
  assume "exitCheck bt i price xs t = (True, EXIT_SIGNAL)"
  then show "minHolding bt \<le> holdingPeriod i t"
    by (rule exitCheck_signal_min_holding)
next
  fix r m
  assume "exitCheck bt i price xs t = (True, r) \<and> r \<noteq> EXIT_SIGNAL"
  then show "exitCheck (bt \<lparr> minHolding := m \<rparr>) i price xs t = (True, r)"
    by (simp add: exitCheck_other_any_holding)
next
  fix he cur' trs' cap'
  assume a: "processExitSignals bt cur trs sd i price xs cap = Inr (he, cur', trs', cap')"
  have e: "exiting bt i price xs = (\<lambda>t. fst (exitCheck bt i price xs t))"
    by (simp add: exiting_def fun_eq_iff)
  have c: "closedBy bt sd i price xs = (\<lambda>t. closeTrade bt i (dates sd ! i) price
             (exitReasonToString (snd (exitCheck bt i price xs t))) t)"
    by (simp add: closedBy_def getExitReasonString_def fun_eq_iff)
  from a show "cur' = filter (\<lambda>t. \<not> fst (exitCheck bt i price xs t)) cur"
    by (simp add: processExitSignals_result e split: if_splits)
  from a show "trs' = trs @ map (\<lambda>t. closeTrade bt i (dates sd ! i) price
                                  (exitReasonToString (snd (exitCheck bt i price xs t))) t)
                           (filter (\<lambda>t. fst (exitCheck bt i price xs t)) cur)"
    by (simp add: processExitSignals_result e c split: if_splits)
qed

lemmas spec_rule_defs = spec_first_match_def spec_exit_rules_def spec_price_return_def
  spec_holding_period_def

text \<open>
  A long position opened at 100 on bar 0, seen on bar 2 with the exit signal for longs: at
  120 with a take profit of 0.10 and a minimum holding period of 5 (or 9) it is closed by
  take profit; at 105 with the default minimum holding period of 1 it is closed by the exit
  signal.
\<close>

theorem exit_conditions_order_and_min_holding_witness:
  "exitCheck (init_members (defaultArgs \<lparr> arg_takeProfitPct := 0.10, arg_minHoldingPeriod := 5 \<rparr>)
       False [] []) 2 120 (- 1)
     (default_trade \<lparr> direction := ''long'', entryPrice := 100, quantity := 10,
        entryInvestment := 1000 \<rparr>) = (True, TAKE_PROFIT)
   \<and> exitCheck (init_members (defaultArgs \<lparr> arg_takeProfitPct := 0.10, arg_minHoldingPeriod := 5 \<rparr>)
       False [] [] \<lparr> minHolding := 9 \<rparr>) 2 120 (- 1)
     (default_trade \<lparr> direction := ''long'', entryPrice := 100, quantity := 10,
        entryInvestment := 1000 \<rparr>) = (True, TAKE_PROFIT)
   \<and> exitCheck (init_members defaultArgs False [] []) 2 105 (- 1)
     (default_trade \<lparr> direction := ''long'', entryPrice := 100, quantity := 10,
        entryInvestment := 1000 \<rparr>) = (True, EXIT_SIGNAL)
   \<and> minHolding (init_members defaultArgs False [] [])
       \<le> holdingPeriod 2 (default_trade \<lparr> direction := ''long'', entryPrice := 100,
            quantity := 10, entryInvestment := 1000 \<rparr>)
   \<and> map exitReason (fst (snd (snd (projr
        (processExitSignals
           (init_members (defaultArgs \<lparr> arg_takeProfitPct := 0.10, arg_minHoldingPeriod := 5 \<rparr>)
              False [] [])
           [default_trade \<lparr> direction := ''long'', entryPrice := 100, quantity := 10,
              entryInvestment := 1000 \<rparr>] []
           (data (init_members defaultArgs False [] []) \<lparr> dates := [0, 1, 2] \<rparr>)
           2 120 (- 1) 0))))) = [''Take Profit'']"
proof -
  let ?B = "init_members (defaultArgs \<lparr> arg_takeProfitPct := 0.10, arg_minHoldingPeriod := 5 \<rparr>)
       False [] []"
  let ?B1 = "init_members defaultArgs False [] []"
  let ?T = "default_trade \<lparr> direction := ''long'', entryPrice := 100, quantity := 10,
        entryInvestment := 1000 \<rparr>"
  let ?SD = "data (init_members defaultArgs False [] []) \<lparr> dates := [0, 1, 2] \<rparr>"
  note tp = exit_conditions_order_and_min_holding
    [of ?T 2 ?B 120 "- 1" "[?T]" "[]" ?SD 0]
  note sg = exit_conditions_order_and_min_holding
    [of ?T 2 ?B1 105 "- 1" "[?T]" "[]" ?SD 0]
  have 1: "exitCheck ?B 2 120 (- 1) ?T = (True, TAKE_PROFIT)"
    using tp by (simp add: spec_rule_defs init_members_def defaultArgs_def default_trade_def)
  have 2: "exitCheck (?B \<lparr> minHolding := 9 \<rparr>) 2 120 (- 1) ?T = (True, TAKE_PROFIT)"
    using tp 1 by blast
  have 3: "exitCheck ?B1 2 105 (- 1) ?T = (True, EXIT_SIGNAL)"
    using sg by (simp add: spec_rule_defs init_members_def defaultArgs_def default_trade_def)
  have 4: "minHolding ?B1 \<le> holdingPeriod 2 ?T"
    using sg 3 by blast
  have "\<exists>he cur' trs' cap'. processExitSignals ?B [?T] [] ?SD 2 120 (- 1) 0
          = Inr (he, cur', trs', cap')"
    by (simp add: processExitSignals_result)
  then obtain he cur' trs' cap' where
    p: "processExitSignals ?B [?T] [] ?SD 2 120 (- 1) 0 = Inr (he, cur', trs', cap')"
    by blast
  then have "trs' = [] @ map (\<lambda>t. closeTrade ?B 2 (dates ?SD ! 2) 120
                 (exitReasonToString (snd (exitCheck ?B 2 120 (- 1) t))) t)
                 (filter (\<lambda>t. fst (exitCheck ?B 2 120 (- 1) t)) [?T])"
    using tp by blast
  then have "map exitReason trs' = [''Take Profit'']"
    using 1 by (simp add: closeTrade_def Let_def split_def)
  with p have 5: "map exitReason (fst (snd (snd (projr
        (processExitSignals ?B [?T] [] ?SD 2 120 (- 1) 0))))) = [''Take Profit'']"
    by simp
  from 1 2 3 4 5 show ?thesis by blast
qed

lemma closedBy_fields:
  "exitIndex (closedBy bt sd i price xs t) = to_int32 (int i)"
  "exitPrice (closedBy bt sd i price xs t) =
     (if slippagePct bt > 0
      then (if isLongTrade t then price * (1 - slippagePct bt) else price * (1 + slippagePct bt))
      else price)"
  "exitReason (closedBy bt sd i price xs t) =
     exitReasonToString (snd (exitCheck bt i price xs t))"
  by (simp_all add: closedBy_def closeTrade_def Let_def split_def getExitReasonString_def)

lemma exiting_reason_string:
  assumes "exiting bt i price xs t"
  shows "exitReasonToString (snd (exitCheck bt i price xs t))
     \<in> {''Take Profit'', ''Stop Loss'', ''Max Holding Period Reached'', ''Exit Signal''}"
proof -
  have "snd (exitCheck bt i price xs t) \<in> {TAKE_PROFIT, STOP_LOSS, MAX_HOLDING_PERIOD, EXIT_SIGNAL}"
    using assms exitCheck_reason by (simp add: exiting_def)
  then show ?thesis by auto
qed

text \<open>
  Claim C2, as amended. The exit processor has no treatment of a negative free capital:
  every position it closes is closed for one of the four exit rules at the current bar (at
  the bar price, moved by the slippage), never with the reason of \<open>FORCE_EXIT\<close>, and the free
  capital after the pass is the free capital before plus the exit values of the closed
  positions, whatever its sign.
\<close>

theorem exit_adds_exit_value_without_force_exit:
  assumes "processExitSignals bt cur trs sd i price xs cap = Inr (hasExited, cur', trs', cap')"
  shows "\<exists>closed. trs' = trs @ closed
     \<and> cap' = cap + sum_list (map exitValue closed)
     \<and> (\<forall>t \<in> set closed.
           exitReason t \<in> {''Take Profit'', ''Stop Loss'', ''Max Holding Period Reached'',
                            ''Exit Signal''}
         \<and> exitReason t \<noteq> exitReasonToString FORCE_EXIT
         \<and> exitIndex t = to_int32 (int i)
         \<and> (exitPrice t = price \<or> exitPrice t = price * (1 - slippagePct bt)
            \<or> exitPrice t = price * (1 + slippagePct bt)))"
proof -
  let ?closed = "map (closedBy bt sd i price xs) (filter (exiting bt i price xs) cur)"
  have r: "trs' = trs @ ?closed" "cap' = cap + sum_list (map exitValue ?closed)"
    using assms by (simp_all add: processExitSignals_result split: if_splits)
  have "\<forall>t \<in> set ?closed.
           exitReason t \<in> {''Take Profit'', ''Stop Loss'', ''Max Holding Period Reached'',
                            ''Exit Signal''}
         \<and> exitReason t \<noteq> exitReasonToString FORCE_EXIT
         \<and> exitIndex t = to_int32 (int i)
         \<and> (exitPrice t = price \<or> exitPrice t = price * (1 - slippagePct bt)
            \<or> exitPrice t = price * (1 + slippagePct bt))"
  proof
    fix t assume "t \<in> set ?closed"
    then obtain u where u: "exiting bt i price xs u" "t = closedBy bt sd i price xs u"
      by auto
    have s: "exitReason t \<in> {''Take Profit'', ''Stop Loss'', ''Max Holding Period Reached'',
                            ''Exit Signal''}"
      using exiting_reason_string [OF u(1)] u(2) by (simp add: closedBy_fields)
    then have f: "exitReason t \<noteq> exitReasonToString FORCE_EXIT" by auto
    have x: "exitIndex t = to_int32 (int i)" using u(2) by (simp add: closedBy_fields)
    have p: "exitPrice t = price \<or> exitPrice t = price * (1 - slippagePct bt)
            \<or> exitPrice t = price * (1 + slippagePct bt)"
      using u(2) by (simp add: closedBy_fields)
    from s f x p show "exitReason t \<in> {''Take Profit'', ''Stop Loss'', ''Max Holding Period Reached'',
                            ''Exit Signal''}
         \<and> exitReason t \<noteq> exitReasonToString FORCE_EXIT
         \<and> exitIndex t = to_int32 (int i)
         \<and> (exitPrice t = price \<or> exitPrice t = price * (1 - slippagePct bt)
            \<or> exitPrice t = price * (1 + slippagePct bt))" by blast
  qed
  with r show ?thesis by blast
qed

text \<open>
  The claim C2 as it is worded fails on prices 100 and 300 with a short entry on the first
  bar and the exit signal for shorts on the second (initial capital 1000, no commission): the
  buy-back costs 3000 against 1000 set aside, the position is closed with the reason of the
  exit signal and the free capital recorded for the second bar is -1000.
\<close>

theorem negative_free_capital_counterexample:
  "map exitReason (fst (projr (backtest_simulate [100, 300] [- 1, 0] [0, 1] [0, 1]
      (defaultArgs \<lparr> arg_tradeType := ''short'', arg_initialCapital := 1000,
         arg_commissionPct := 0 \<rparr>)))) = [''Exit Signal'']
   \<and> availableCapital (snd (projr (backtest_simulate [100, 300] [- 1, 0] [0, 1] [0, 1]
      (defaultArgs \<lparr> arg_tradeType := ''short'', arg_initialCapital := 1000,
         arg_commissionPct := 0 \<rparr>)))) = [0, - 1000]"
  by (simp add: backtest_simulate_def ctor_defs bar_defs sim_defs)

text \<open>
  Claim C5, as amended. Under \<open>same_bar_trade\<close> a bar whose exit signal is not 0 runs Exit,
  then Entry, then Exit again; the second pass is the same exit processor (four rules, only
  the exit-signal rule gated by the minimum holding period). A bar whose exit signal is 0
  runs Exit, then Entry only, as under \<open>exit_first\<close>: a position opened on such a bar is not
  checked for take profit, stop loss or max holding on that bar.
\<close>

theorem same_bar_trade_second_pass:
  assumes "signalPriority bt = SAME_BAR_TRADE"
  shows "applySignals bt sd i price es xs cur trs cap =
     (if xs \<noteq> 0 then spec_exit_entry_exit bt sd i price es xs cur trs cap
      else spec_exit_entry bt sd i price es xs cur trs cap)"
  using assms by (rule same_bar_trade_passes)

lemmas spec_pass_defs = spec_exit_entry_exit_def spec_exit_entry_def

text \<open>The same exit as one call of the exit processor.\<close>

theorem exit_adds_exit_value_without_force_exit_witness:
  "\<exists>closed. fst (snd (snd (projr (processExitSignals
        (init_members (defaultArgs \<lparr> arg_tradeType := ''short'', arg_commissionPct := 0 \<rparr>)
           False [] [])
        [default_trade \<lparr> direction := ''short'', entryPrice := 100, quantity := 10,
           entryInvestment := 1000 \<rparr>] []
        (data (init_members defaultArgs False [] []) \<lparr> dates := [0, 1] \<rparr>) 1 300 1 0)))) = closed
     \<and> snd (snd (snd (projr (processExitSignals
        (init_members (defaultArgs \<lparr> arg_tradeType := ''short'', arg_commissionPct := 0 \<rparr>)
           False [] [])
        [default_trade \<lparr> direction := ''short'', entryPrice := 100, quantity := 10,
           entryInvestment := 1000 \<rparr>] []
        (data (init_members defaultArgs False [] []) \<lparr> dates := [0, 1] \<rparr>) 1 300 1 0))))
        = 0 + sum_list (map exitValue closed)
     \<and> sum_list (map exitValue closed) = - 1000
     \<and> map exitReason closed = [''Exit Signal'']"
proof -
  let ?P = "processExitSignals
        (init_members (defaultArgs \<lparr> arg_tradeType := ''short'', arg_commissionPct := 0 \<rparr>)
           False [] [])
        [default_trade \<lparr> direction := ''short'', entryPrice := 100, quantity := 10,
           entryInvestment := 1000 \<rparr>] []
        (data (init_members defaultArgs False [] []) \<lparr> dates := [0, 1] \<rparr>) 1 300 1 0"
  have "\<exists>cur' trs' cap'. ?P = Inr (True, cur', trs', cap') \<and> cap' = - 1000
          \<and> map exitReason trs' = [''Exit Signal'']"
    by (simp add: ctor_defs bar_defs)
  then obtain cur' trs' cap' where
    p: "?P = Inr (True, cur', trs', cap')" and v: "cap' = - 1000"
      "map exitReason trs' = [''Exit Signal'']"
    by (elim exE conjE)
  from exit_adds_exit_value_without_force_exit [OF p]
  obtain closed where c: "trs' = [] @ closed" "cap' = 0 + sum_list (map exitValue closed)"
    by blast
  show ?thesis
    using p v c by simp
qed

text \<open>
  The claim C5 as it is worded fails on a bar with a long entry signal and the exit signal 0
  under \<open>same_bar_trade\<close>, with a slippage of 0.1 and a stop loss of 0.05: the position is
  opened at 110 on a bar price of 100, a second exit pass would close it by stop loss at
  once, and the code leaves it open.
\<close>

theorem same_bar_trade_second_pass_counterexample:
  "map exitReason (fst (snd (projr (spec_exit_entry_exit example_same_bar
       (data example_same_bar) 0 100 1 0 [] [] 1000)))) = [''Stop Loss'']
   \<and> fst (projr (spec_exit_entry_exit example_same_bar
       (data example_same_bar) 0 100 1 0 [] [] 1000)) = []
   \<and> fst (snd (projr (applySignals example_same_bar
       (data example_same_bar) 0 100 1 0 [] [] 1000))) = []
   \<and> length (fst (projr (applySignals example_same_bar
       (data example_same_bar) 0 100 1 0 [] [] 1000))) = 1"
  by (simp add: example_same_bar_def ctor_defs bar_defs spec_pass_defs)

text \<open>The same object on a bar with the exit signal -1, and on the bar with the exit
  signal 0.\<close>

theorem same_bar_trade_second_pass_witness:
  "applySignals example_same_bar (data example_same_bar) 0 100 1 (- 1) [] [] 1000 =
     spec_exit_entry_exit example_same_bar (data example_same_bar) 0 100 1 (- 1) [] [] 1000
   \<and> applySignals example_same_bar (data example_same_bar) 0 100 1 0 [] [] 1000 =
     spec_exit_entry example_same_bar (data example_same_bar) 0 100 1 0 [] [] 1000"
proof -
  have s: "signalPriority example_same_bar = SAME_BAR_TRADE"
    by (simp add: example_same_bar_def ctor_defs)
  show ?thesis
    using same_bar_trade_second_pass [OF s, of "data example_same_bar" 0 100 1 "- 1" "[]" "[]" 1000]
      same_bar_trade_second_pass [OF s, of "data example_same_bar" 0 100 1 0 "[]" "[]" 1000]
    by simp
qed






section \<open>Construction: what is validated\<close>

lemma check_params_isl:
  "isl (check_params ps ds xm em acc) = (\<exists>e \<in> set em. bad_param ps ds xm e)"
proof (induction em arbitrary: acc)
  case Nil
  then show ?case by simp
next
  case (Cons e em)
  obtain k v where e: "e = (k, v)" by (cases e)
  show ?case
  proof (cases "map_of xm k")
    case None
    then show ?thesis using e by (simp add: bad_param_def)
  next
    case (Some w)
    show ?thesis
    proof (cases "length v \<noteq> length ps \<or> length w \<noteq> length ps \<or> length ps \<noteq> length ds")
      case True
      then show ?thesis using e Some by (simp add: bad_param_def)
    next
      case False
      then have "check_params ps ds xm (e # em) acc = check_params ps ds xm em (acc @ [k])"
        using e Some by simp
      moreover have "\<not> bad_param ps ds xm e"
        using e Some False by (simp add: bad_param_def)
      ultimately show ?thesis using Cons.IH by simp
    qed
  qed
qed

lemma check_params_error:
  "check_params ps ds xm em acc = Inl err \<Longrightarrow> \<exists>msg. err = InvalidArgument msg"
proof (induction em arbitrary: acc)
  case Nil
  then show ?case by simp
next
  case (Cons e em)
  obtain k v where e: "e = (k, v)" by (cases e)
  show ?case
    using Cons.prems Cons.IH e
    by (auto split: option.splits if_splits)
qed

lemma check_params_names:
  "check_params ps ds xm em acc = Inr names \<Longrightarrow> names = acc @ map fst em"
proof (induction em arbitrary: acc)
  case Nil
  then show ?case by simp
next
  case (Cons e em)
  obtain k v where e: "e = (k, v)" by (cases e)
  show ?case
    using Cons.prems Cons.IH [of "acc @ [k]"] e
    by (auto split: option.splits if_splits)
qed

lemma bad_param_iff:
  "bad_param ps ds xm e =
     (\<not> (case e of (name, v) \<Rightarrow> \<exists>w. map_of xm name = Some w \<and> length v = length ps
             \<and> length w = length ps \<and> length ps = length ds))"
  by (cases e) (auto simp: bad_param_def split: option.splits)

lemma init_members_sel:
  "entriesMap (init_members a m em xm) = em"
  "exitsMap (init_members a m em xm) = xm"
  "params (init_members a m em xm) = []"
  by (simp_all add: init_members_def)

text \<open>
  Claim C3, as amended. Construction fails, with \<open>std::invalid_argument\<close> and without an
  object, exactly when the vectors are inconsistent: in the single-strategy constructor when
  prices, entries, exits and dates do not all have the same length; in the multi-strategy
  constructor when a named entry series has no exit series of that name, or the lengths of
  such a pair, of the prices and of the dates are not all the same. Nothing else is checked:
  the initial capital is stored as given (a negative one too), an unknown trade type is read
  as \<open>long\<close> and an unknown signal priority as \<open>exit_first\<close>; the timeframe is stored as
  given, and an unknown one counts 365 periods per year.
\<close>

theorem construction_fails_only_on_inconsistent_vectors:
  "((\<exists>bt. Backtest_single ps es xs ds a = Inr bt) =
      (length ps = length es \<and> length ps = length xs \<and> length ps = length ds))
   \<and> (isl (Backtest_single ps es xs ds a) \<longrightarrow>
        Backtest_single ps es xs ds a =
          Inl (InvalidArgument ''Price, entries, exits, and dates must have the same size''))
   \<and> ((\<exists>bt. Backtest_multi ps em xm ds a = Inr bt) =
        (\<forall>(name, v) \<in> set em. \<exists>w. map_of xm name = Some w \<and> length v = length ps
             \<and> length w = length ps \<and> length ps = length ds))
   \<and> (isl (Backtest_multi ps em xm ds a) \<longrightarrow>
        (\<exists>msg. Backtest_multi ps em xm ds a = Inl (InvalidArgument msg)))
   \<and> (map tolower (arg_tradeType a) \<notin> {''long'', ''short'', ''long_short''} \<longrightarrow>
        parseTradeType (arg_tradeType a) = LONG)
   \<and> (arg_signalPriorityMode a \<notin> {''entry_first'', ''same_bar_trade''} \<longrightarrow>
        parseSignalPriorityMode (arg_signalPriorityMode a) = EXIT_FIRST)
   \<and> (\<forall>bt. Backtest_single ps es xs ds a = Inr bt \<or> Backtest_multi ps em xm ds a = Inr bt \<longrightarrow>
        startFund bt = arg_initialCapital a
        \<and> tradeType bt = parseTradeType (arg_tradeType a)
        \<and> signalPriority bt = parseSignalPriorityMode (arg_signalPriorityMode a)
        \<and> interval bt = arg_timeframe a
        \<and> (arg_timeframe a \<notin> {''1d'', ''1h'', ''4h'', ''30m'', ''15m'', ''5m'', ''1m''} \<longrightarrow>
             getPeriodsPerYear bt = 365))"
proof (intro conjI allI impI)
  show "(\<exists>bt. Backtest_single ps es xs ds a = Inr bt) =
      (length ps = length es \<and> length ps = length xs \<and> length ps = length ds)"
    by (auto simp: Backtest_single_def Let_def)
  show "Backtest_single ps es xs ds a =
          Inl (InvalidArgument ''Price, entries, exits, and dates must have the same size'')"
    if "isl (Backtest_single ps es xs ds a)"
    using that by (auto simp: Backtest_single_def Let_def split: if_splits)
  have m: "Backtest_multi ps em xm ds a =
     (case check_params ps ds xm em [] of Inl e \<Rightarrow> Inl e
      | Inr names \<Rightarrow> Inr (init_members a True em xm
          \<lparr> params := names,
            data := init_storage (init_members a True em xm) (length ps)
                      (data (init_members a True em xm) \<lparr> prices := ps, dates := ds \<rparr>) \<rparr>))"
    by (simp add: Backtest_multi_def Let_def init_members_sel split: sum.split)
  have b: "(\<exists>e \<in> set em. bad_param ps ds xm e) =
      (\<not> (\<forall>(name, v) \<in> set em. \<exists>w. map_of xm name = Some w \<and> length v = length ps
             \<and> length w = length ps \<and> length ps = length ds))"
    by (simp add: bad_param_iff)
  have i: "isl (Backtest_multi ps em xm ds a) = isl (check_params ps ds xm em [])"
    unfolding m by (simp split: sum.split)
  have "(\<exists>bt. Backtest_multi ps em xm ds a = Inr bt) = (\<not> isl (Backtest_multi ps em xm ds a))"
    by (cases "Backtest_multi ps em xm ds a") simp_all
  then show "(\<exists>bt. Backtest_multi ps em xm ds a = Inr bt) =
        (\<forall>(name, v) \<in> set em. \<exists>w. map_of xm name = Some w \<and> length v = length ps
             \<and> length w = length ps \<and> length ps = length ds)"
    unfolding i check_params_isl b by simp
  show "\<exists>msg. Backtest_multi ps em xm ds a = Inl (InvalidArgument msg)"
    if "isl (Backtest_multi ps em xm ds a)"
  proof -
    from that obtain err where "check_params ps ds xm em [] = Inl err"
      unfolding i by (cases "check_params ps ds xm em []") simp_all
    then show ?thesis
      unfolding m using check_params_error by fastforce
  qed
  show "parseTradeType (arg_tradeType a) = LONG"
    if "map tolower (arg_tradeType a) \<notin> {''long'', ''short'', ''long_short''}"
    using that by (simp add: parseTradeType_def Let_def)
  show "parseSignalPriorityMode (arg_signalPriorityMode a) = EXIT_FIRST"
    if "arg_signalPriorityMode a \<notin> {''entry_first'', ''same_bar_trade''}"
    using that by (simp add: parseSignalPriorityMode_def)
  fix bt
  assume c: "Backtest_single ps es xs ds a = Inr bt \<or> Backtest_multi ps em xm ds a = Inr bt"
  then have "startFund bt = arg_initialCapital a
        \<and> tradeType bt = parseTradeType (arg_tradeType a)
        \<and> signalPriority bt = parseSignalPriorityMode (arg_signalPriorityMode a)
        \<and> interval bt = arg_timeframe a"
    unfolding m
    by (auto simp: Backtest_single_def Let_def init_members_def split: if_splits sum.splits)
  then show f: "startFund bt = arg_initialCapital a"
    "tradeType bt = parseTradeType (arg_tradeType a)"
    "signalPriority bt = parseSignalPriorityMode (arg_signalPriorityMode a)"
    "interval bt = arg_timeframe a"
    by simp_all
  show "getPeriodsPerYear bt = 365"
    if "arg_timeframe a \<notin> {''1d'', ''1h'', ''4h'', ''30m'', ''15m'', ''5m'', ''1m''}"
    using that f(4) by (simp add: getPeriodsPerYear_def)
qed

text \<open>
  The claim C3 as it is worded fails on an initial capital of -5 with the timeframe
  \<open>2w\<close>, the trade type \<open>sideways\<close> and the signal priority \<open>whenever\<close>: construction
  succeeds, with the capital -5, the trade type \<open>LONG\<close>, the priority \<open>EXIT_FIRST\<close> and 365
  periods per year.
\<close>

theorem construction_accepts_negative_capital_and_unknown_strings_counterexample:
  "\<not> isl (Backtest_single [100] [0] [0] [0]
      (defaultArgs \<lparr> arg_timeframe := ''2w'', arg_tradeType := ''sideways'',
         arg_initialCapital := - 5, arg_signalPriorityMode := ''whenever'' \<rparr>))
   \<and> startFund (projr (Backtest_single [100] [0] [0] [0]
      (defaultArgs \<lparr> arg_timeframe := ''2w'', arg_tradeType := ''sideways'',
         arg_initialCapital := - 5, arg_signalPriorityMode := ''whenever'' \<rparr>))) = - 5
   \<and> tradeType (projr (Backtest_single [100] [0] [0] [0]
      (defaultArgs \<lparr> arg_timeframe := ''2w'', arg_tradeType := ''sideways'',
         arg_initialCapital := - 5, arg_signalPriorityMode := ''whenever'' \<rparr>))) = LONG
   \<and> signalPriority (projr (Backtest_single [100] [0] [0] [0]
      (defaultArgs \<lparr> arg_timeframe := ''2w'', arg_tradeType := ''sideways'',
         arg_initialCapital := - 5, arg_signalPriorityMode := ''whenever'' \<rparr>))) = EXIT_FIRST
   \<and> getPeriodsPerYear (projr (Backtest_single [100] [0] [0] [0]
      (defaultArgs \<lparr> arg_timeframe := ''2w'', arg_tradeType := ''sideways'',
         arg_initialCapital := - 5, arg_signalPriorityMode := ''whenever'' \<rparr>))) = 365"
  by (simp add: ctor_defs getPeriodsPerYear_def)

text \<open>A missing entry vector element and a missing named exit series are rejected; the
  consistent inputs are accepted, with the default trade type string \<open>long_only\<close> read as
  \<open>LONG\<close>.\<close>

theorem construction_fails_only_on_inconsistent_vectors_witness:
  "isl (Backtest_single [100] [] [0] [0] defaultArgs)
   \<and> (\<exists>bt. Backtest_single [100] [0] [0] [0] defaultArgs = Inr bt)
   \<and> isl (Backtest_multi [100] [(''a'', [1])] [] [0] defaultArgs)
   \<and> (\<exists>bt. Backtest_multi [100] [(''a'', [1])] [(''a'', [0])] [0] defaultArgs = Inr bt)
   \<and> parseTradeType (arg_tradeType defaultArgs) = LONG"
proof -
  note s1 = construction_fails_only_on_inconsistent_vectors
    [of "[100]" "[]" "[0]" "[0]" defaultArgs "[(''a'', [1])]" "[]"]
  note s2 = construction_fails_only_on_inconsistent_vectors
    [of "[100]" "[0]" "[0]" "[0]" defaultArgs "[(''a'', [1])]" "[(''a'', [0])]"]
  have a: "isl (Backtest_single [100] [] [0] [0] defaultArgs)"
    using s1 by (cases "Backtest_single [100] [] [0] [0] defaultArgs") auto
  have b: "\<exists>bt. Backtest_single [100] [0] [0] [0] defaultArgs = Inr bt"
    using s2 by simp
  have c: "isl (Backtest_multi [100] [(''a'', [1])] [] [0] defaultArgs)"
    using s1 by (cases "Backtest_multi [100] [(''a'', [1])] [] [0] defaultArgs") auto
  have d: "\<exists>bt. Backtest_multi [100] [(''a'', [1])] [(''a'', [0])] [0] defaultArgs = Inr bt"
    using s2 by simp
  have e: "parseTradeType (arg_tradeType defaultArgs) = LONG"
    using s2 by (simp add: defaultArgs_def tolower_def)
  from a b c d e show ?thesis by blast
qed

section \<open>Totality of a run and the capital identity\<close>

lemma recordBar_ok:
  assumes "series_ok n sd" "i < n"
  shows "\<exists>sd'. recordBar sd i cap v = Inr sd' \<and> series_ok n sd'"
  using assms
  by (auto simp: recordBar_def series_ok_def Let_def nth_list_update)

lemma processExitSignals_total:
  "i < length (dates sd) \<Longrightarrow> \<exists>r. processExitSignals bt cur trs sd i price xs cap = Inr r"
  by (simp add: processExitSignals_result)

lemma processEntrySignals_total:
  "i < length (dates sd) \<Longrightarrow> \<exists>r. processEntrySignals bt cur sd i price es cap = Inr r"
  by (auto simp: processEntrySignals_def Let_def)

lemma applySignals_total:
  assumes "i < length (dates sd)"
  shows "\<exists>r. applySignals bt sd i price es xs cur trs cap = Inr r"
proof -
  have x: "\<And>c t k. \<exists>he c' t' k'. processExitSignals bt c t sd i price xs k = Inr (he, c', t', k')"
    using processExitSignals_total [OF assms] by (metis prod_cases4)
  have e: "\<And>c k. \<exists>hn c' k'. processEntrySignals bt c sd i price es k = Inr (hn, c', k')"
    using processEntrySignals_total [OF assms] by (metis prod_cases3)
  show ?thesis
  proof (cases "signalPriority bt = EXIT_FIRST \<or> signalPriority bt = SAME_BAR_TRADE")
    case True
    obtain he c1 t1 k1 where 1: "processExitSignals bt cur trs sd i price xs cap = Inr (he, c1, t1, k1)"
      using x by blast
    obtain hn c2 k2 where 2: "processEntrySignals bt c1 sd i price es k1 = Inr (hn, c2, k2)"
      using e by blast
    obtain he3 c3 t3 k3 where 3: "processExitSignals bt c2 t1 sd i price xs k2 = Inr (he3, c3, t3, k3)"
      using x by blast
    show ?thesis using True 1 2 3 by (simp add: applySignals_def)
  next
    case False
    obtain hn c1 k1 where 1: "processEntrySignals bt cur sd i price es cap = Inr (hn, c1, k1)"
      using e by blast
    obtain he c2 t2 k2 where 2: "processExitSignals bt c1 trs sd i price xs k1 = Inr (he, c2, t2, k2)"
      using x by blast
    show ?thesis using False 1 2 by (simp add: applySignals_def)
  qed
qed

lemma runBar_ok:
  assumes "series_ok n (seriesData st)" "i < n" "length es = n" "length xs = n"
  shows "\<exists>st'. runBar bt es xs i st = Inr st' \<and> series_ok n (seriesData st')"
proof -
  have d: "i < length (dates (seriesData st))" "i < length (prices (seriesData st))"
    using assms by (simp_all add: series_ok_def)
  obtain cur trs cap where a: "applySignals bt (seriesData st) i (prices (seriesData st) ! i)
       (es ! i) (xs ! i) (markToMarket (prices (seriesData st) ! i) (currentTrades st))
       (trades st) (currentCapital st) = Inr (cur, trs, cap)"
    using applySignals_total [OF d(1)] by (metis prod_cases3)
  obtain sd' where r: "recordBar (seriesData st) i cap (sumCurrentValue cur) = Inr sd'"
    "series_ok n sd'"
    using recordBar_ok [OF assms(1,2)] by blast
  show ?thesis
    using d assms(2-4) a r by (simp add: runBar_def)
qed

lemma barLoop_ok:
  "series_ok n (seriesData st) \<Longrightarrow> length es = n \<Longrightarrow> length xs = n \<Longrightarrow>
     \<exists>st'. barLoop bt es xs n i st = Inr st' \<and> series_ok n (seriesData st')"
proof (induction bt es xs n i st rule: barLoop.induct)
  case (1 bt es xs dataSize i st)
  show ?case
  proof (cases "i < dataSize")
    case True
    obtain st1 where s: "runBar bt es xs i st = Inr st1" "series_ok dataSize (seriesData st1)"
      using runBar_ok [OF "1.prems"(1) True "1.prems"(2,3)] by blast
    have "\<exists>st'. barLoop bt es xs dataSize (Suc i) st1 = Inr st'
        \<and> series_ok dataSize (seriesData st')"
      using "1.IH" [OF True s(2) "1.prems"(2,3)] .
    then show ?thesis
      using True s(1) by (subst barLoop.simps) simp
  next
    case False
    then show ?thesis
      using "1.prems"(1) by (subst barLoop.simps) simp
  qed
qed

lemma forceCloseLoop_result:
  "li < length (dates sd) \<Longrightarrow>
     forceCloseLoop bt sd li lp ts (seen, trs, cap) =
       Inr (seen @ map (closeTrade bt li (dates sd ! li) lp ''End of Backtest'') ts,
            trs @ map (closeTrade bt li (dates sd ! li) lp ''End of Backtest'') ts,
            cap + sum_list (map exitValue
                    (map (closeTrade bt li (dates sd ! li) lp ''End of Backtest'') ts)))"
  by (induction ts arbitrary: seen trs cap) (simp_all add: Let_def add.assoc)

lemma last_index:
  assumes "0 < n" "n < 2 ^ 64"
  shows "to_size_t (int n - 1) = n - 1"
proof -
  have "0 \<le> int n - 1" "int n - 1 < 2 ^ 64" using assms by auto
  then have "(int n - 1) mod 2 ^ 64 = int n - 1" by (simp add: mod_pos_pos_trivial)
  then show ?thesis using assms by (simp add: to_size_t_def)
qed

lemma closeOpenPositions_total:
  "li < length (dates sd) \<Longrightarrow> \<exists>r. closeOpenPositions bt sd li lp cur trs cap = Inr r"
  by (simp add: closeOpenPositions_def forceCloseLoop_result)

lemma updateFinalState_ok:
  assumes "series_ok n sd" "li < n"
  shows "\<exists>sd'. updateFinalState bt sd li cur cap = Inr sd' \<and> series_ok n sd'"
  using assms
  by (auto simp: updateFinalState_def series_ok_def Let_def nth_list_update)

lemma closeAtEnd_ok:
  assumes "series_ok n (seriesData st)" "0 < n" "n < 2 ^ 64"
  shows "\<exists>st'. closeAtEnd bt n st = Inr st' \<and> series_ok n (seriesData st')"
proof -
  have li: "to_size_t (int n - 1) = n - 1" using assms(2,3) by (rule last_index)
  have r: "n - 1 < length (dates (seriesData st))" "n - 1 < length (prices (seriesData st))"
    "n - 1 < n"
    using assms(1,2) by (simp_all add: series_ok_def)
  obtain cur trs cap where c: "closeOpenPositions bt (seriesData st) (n - 1)
      (prices (seriesData st) ! (n - 1)) (currentTrades st) (trades st) (currentCapital st)
      = Inr (cur, trs, cap)"
    using closeOpenPositions_total [OF r(1)] by (metis prod_cases3)
  obtain sd' where u: "updateFinalState bt (seriesData st) (n - 1) cur cap = Inr sd'"
    "series_ok n sd'"
    using updateFinalState_ok [OF assms(1) r(3)] by blast
  show ?thesis
    using r(2) c u by (simp add: closeAtEnd_def Let_def li)
qed

lemma cumulativeLoop_ok:
  "length (dailyReturn sd) = n \<Longrightarrow> length (cumulativeReturn sd) = n \<Longrightarrow>
     \<exists>sd'. cumulativeLoop n i cum sd = Inr sd'
       \<and> dates sd' = dates sd \<and> prices sd' = prices sd
       \<and> availableCapital sd' = availableCapital sd \<and> positionValue sd' = positionValue sd
       \<and> totalCapital sd' = totalCapital sd \<and> dailyReturn sd' = dailyReturn sd
       \<and> length (cumulativeReturn sd') = n"
proof (induction n i cum sd rule: cumulativeLoop.induct)
  case (1 dataSize i cum sd)
  show ?case
  proof (cases "i < dataSize")
    case True
    let ?cum = "cum * (1 + dailyReturn sd ! i)"
    let ?sd = "sd \<lparr> cumulativeReturn := (cumulativeReturn sd)[i := (?cum - 1) * 100] \<rparr>"
    have ih: "\<exists>sd'. cumulativeLoop dataSize (Suc i) ?cum ?sd = Inr sd'
       \<and> dates sd' = dates ?sd \<and> prices sd' = prices ?sd
       \<and> availableCapital sd' = availableCapital ?sd \<and> positionValue sd' = positionValue ?sd
       \<and> totalCapital sd' = totalCapital ?sd \<and> dailyReturn sd' = dailyReturn ?sd
       \<and> length (cumulativeReturn sd') = dataSize"
      using "1.prems" True
      by (intro "1.IH" [where x = "dailyReturn sd ! i" and xa = ?cum]) simp_all
    show ?thesis
      using True "1.prems" ih
      by (subst cumulativeLoop.simps) (simp add: Let_def)
  next
    case False
    then show ?thesis
      using "1.prems" by (subst cumulativeLoop.simps) simp
  qed
qed

lemma simulate_ok:
  assumes "series_ok n (data bt)" "0 < n" "n < 2 ^ 64" "length es = n" "length xs = n"
  shows "\<exists>trs sd. simulate bt es xs = Inr (trs, sd) \<and> series_ok n sd"
proof -
  let ?st0 = "\<lparr> currentTrades = [], trades = [], seriesData = data bt,
                 currentCapital = startFund bt \<rparr>"
  have n: "length (prices (data bt)) = n" using assms(1) by (simp add: series_ok_def)
  obtain st1 where 1: "barLoop bt es xs n 0 ?st0 = Inr st1" "series_ok n (seriesData st1)"
    using barLoop_ok [of n ?st0 es xs bt 0] assms by auto
  obtain st2 where 2: "closeAtEnd bt n st1 = Inr st2" "series_ok n (seriesData st2)"
    using closeAtEnd_ok [OF 1(2) assms(2,3)] by blast
  obtain sd where 3: "cumulativeLoop n 0 1 (seriesData st2) = Inr sd"
    "dates sd = dates (seriesData st2)" "prices sd = prices (seriesData st2)"
    "availableCapital sd = availableCapital (seriesData st2)"
    "positionValue sd = positionValue (seriesData st2)"
    "totalCapital sd = totalCapital (seriesData st2)"
    "dailyReturn sd = dailyReturn (seriesData st2)"
    "length (cumulativeReturn sd) = n"
    using cumulativeLoop_ok [of "seriesData st2" n 0 1] 2(2) by (auto simp: series_ok_def)
  have "series_ok n sd" using 2(2) 3(2-8) by (simp add: series_ok_def)
  then show ?thesis using n 1(1) 2(1) 3(1) by (simp add: simulate_def Let_def)
qed

section \<open>The strings of the ledger\<close>

lemma closeTrade_strings:
  "direction (closeTrade bt i d p r t) = direction t"
  "exitReason (closeTrade bt i d p r t) = r"
  by (simp_all add: closeTrade_def Let_def split_def)

lemma closedBy_ok:
  assumes "exiting bt i price xs t" "open_ok t"
  shows "closed_ok (closedBy bt sd i price xs t)"
proof -
  have "exitReason (closedBy bt sd i price xs t)
      \<in> {''Take Profit'', ''Stop Loss'', ''Max Holding Period Reached'', ''Exit Signal''}"
    using exiting_reason_string [OF assms(1)] by (simp add: closedBy_fields)
  moreover have "direction (closedBy bt sd i price xs t) = direction t"
    by (simp add: closedBy_def closeTrade_strings)
  ultimately show ?thesis using assms(2) by (auto simp: closed_ok_def open_ok_def)
qed

lemma processExitSignals_inv:
  assumes "processExitSignals bt cur trs sd i price xs cap = Inr (he, cur', trs', cap')"
    and "\<forall>t \<in> set cur. open_ok t" "\<forall>t \<in> set trs. closed_ok t"
  shows "(\<forall>t \<in> set cur'. open_ok t) \<and> (\<forall>t \<in> set trs'. closed_ok t)"
proof -
  have c: "cur' = filter (\<lambda>t. \<not> exiting bt i price xs t) cur"
    and t: "trs' = trs @ map (closedBy bt sd i price xs) (filter (exiting bt i price xs) cur)"
    using assms(1) by (simp_all add: processExitSignals_result split: if_splits)
  have "\<forall>t \<in> set cur'. open_ok t" using c assms(2) by simp
  moreover have "\<forall>t \<in> set trs'. closed_ok t"
    using t assms(2,3) closedBy_ok by auto
  ultimately show ?thesis by simp
qed

lemma openTrade_ok: "open_ok (openTrade bt i d p isLong amount)"
  by (simp add: openTrade_def open_ok_def Let_def)

lemma processEntrySignals_inv:
  assumes "processEntrySignals bt cur sd i price es cap = Inr (hn, cur', cap')"
    and "\<forall>t \<in> set cur. open_ok t"
  shows "\<forall>t \<in> set cur'. open_ok t"
  using assms openTrade_ok
  by (auto simp: processEntrySignals_def Let_def bind_err_eq_Inr split: if_splits)

lemma applySignals_inv:
  assumes "applySignals bt sd i price es xs cur trs cap = Inr (cur', trs', cap')"
    and "\<forall>t \<in> set cur. open_ok t" "\<forall>t \<in> set trs. closed_ok t"
  shows "(\<forall>t \<in> set cur'. open_ok t) \<and> (\<forall>t \<in> set trs'. closed_ok t)"
proof (cases "signalPriority bt = EXIT_FIRST \<or> signalPriority bt = SAME_BAR_TRADE")
  case True
  from assms(1) True obtain he c1 t1 k1 hn c2 k2 where
    1: "processExitSignals bt cur trs sd i price xs cap = Inr (he, c1, t1, k1)"
    and 2: "processEntrySignals bt c1 sd i price es k1 = Inr (hn, c2, k2)"
    and 3: "(if signalPriority bt = SAME_BAR_TRADE \<and> hn \<and> xs \<noteq> 0
             then bind_err (processExitSignals bt c2 t1 sd i price xs k2)
                    (\<lambda>(hasExited, cur3, trs3, cap3). Inr (cur3, trs3, cap3))
             else Inr (c2, t1, k2)) = Inr (cur', trs', cap')"
    by (auto simp: applySignals_def bind_err_eq_Inr)
  note i1 = processExitSignals_inv [OF 1 assms(2,3)]
  note i2 = processEntrySignals_inv [OF 2 conjunct1 [OF i1]]
  show ?thesis
  proof (cases "signalPriority bt = SAME_BAR_TRADE \<and> hn \<and> xs \<noteq> 0")
    case t: True
    with 3 obtain he3 where
      "processExitSignals bt c2 t1 sd i price xs k2 = Inr (he3, cur', trs', cap')"
      by (auto simp: bind_err_eq_Inr)
    then show ?thesis using processExitSignals_inv i1 i2 by blast
  next
    case False
    with 3 have "cur' = c2" "trs' = t1" by auto
    then show ?thesis using i1 i2 by simp
  qed
next
  case False
  from assms(1) False obtain hn c1 k1 he where
    1: "processEntrySignals bt cur sd i price es cap = Inr (hn, c1, k1)"
    and 2: "processExitSignals bt c1 trs sd i price xs k1 = Inr (he, cur', trs', cap')"
    by (auto simp: applySignals_def bind_err_eq_Inr)
  note i1 = processEntrySignals_inv [OF 1 assms(2)]
  show ?thesis using processExitSignals_inv [OF 2 i1 assms(3)] .
qed

lemma markToMarket_ok:
  "\<forall>t \<in> set ts. open_ok t \<Longrightarrow> \<forall>t \<in> set (markToMarket p ts). open_ok t"
  by (auto simp: markToMarket_def open_ok_def)

lemma runBar_inv:
  assumes "runBar bt es xs i st = Inr st'" "ledger_inv st"
  shows "ledger_inv st'"
proof -
  from assms(1) obtain price e x cur trs cap sd where
    a: "applySignals bt (seriesData st) i price e x (markToMarket price (currentTrades st))
          (trades st) (currentCapital st) = Inr (cur, trs, cap)"
    and s: "st' = \<lparr> currentTrades = cur, trades = trs, seriesData = sd, currentCapital = cap \<rparr>"
    by (auto simp: runBar_def bind_err_eq_Inr)
  have "\<forall>t \<in> set (currentTrades st). open_ok t"
    using assms(2) by (simp add: ledger_inv_def)
  then have "\<forall>t \<in> set (markToMarket price (currentTrades st)). open_ok t"
    by (rule markToMarket_ok)
  moreover have "\<forall>t \<in> set (trades st). closed_ok t"
    using assms(2) by (simp add: ledger_inv_def)
  ultimately show ?thesis
    using applySignals_inv [OF a] s by (simp add: ledger_inv_def)
qed

lemma barLoop_inv:
  "barLoop bt es xs n i st = Inr st' \<Longrightarrow> ledger_inv st \<Longrightarrow> ledger_inv st'"
proof (induction bt es xs n i st rule: barLoop.induct)
  case (1 bt es xs dataSize i st)
  show ?case
  proof (cases "i < dataSize")
    case True
    from "1.prems"(1) True obtain st1 where
      r: "runBar bt es xs i st = Inr st1" and l: "barLoop bt es xs dataSize (Suc i) st1 = Inr st'"
      by (subst (asm) barLoop.simps) (auto simp: bind_err_eq_Inr)
    show ?thesis
      using "1.IH" [OF True l runBar_inv [OF r "1.prems"(2)]] .
  next
    case False
    with "1.prems" show ?thesis
      by (subst (asm) barLoop.simps) simp
  qed
qed

lemma forceCloseLoop_trades:
  "forceCloseLoop bt sd li lp ts (seen, trs, cap) = Inr (seen', trs', cap') \<Longrightarrow>
     trs' = trs @ map (closeTrade bt li (dates sd ! li) lp ''End of Backtest'') ts"
proof (induction ts arbitrary: seen trs cap)
  case Nil
  then show ?case by simp
next
  case (Cons t ts)
  show ?case
  proof (cases "li < length (dates sd)")
    case True
    with Cons.prems have "forceCloseLoop bt sd li lp ts
          (seen @ [closeTrade bt li (dates sd ! li) lp ''End of Backtest'' t],
           trs @ [closeTrade bt li (dates sd ! li) lp ''End of Backtest'' t],
           cap + exitValue (closeTrade bt li (dates sd ! li) lp ''End of Backtest'' t))
          = Inr (seen', trs', cap')"
      by (simp add: Let_def)
    then have "trs' = (trs @ [closeTrade bt li (dates sd ! li) lp ''End of Backtest'' t])
        @ map (closeTrade bt li (dates sd ! li) lp ''End of Backtest'') ts"
      by (rule Cons.IH)
    then show ?thesis by simp
  next
    case False
    with Cons.prems show ?thesis by simp
  qed
qed

lemma forceCloseLoop_inv:
  assumes "forceCloseLoop bt sd li lp ts (seen, trs, cap) = Inr (seen', trs', cap')"
    and "\<forall>t \<in> set ts. open_ok t" "\<forall>t \<in> set trs. closed_ok t"
  shows "\<forall>t \<in> set trs'. closed_ok t"
proof -
  have "\<And>t. open_ok t \<Longrightarrow> closed_ok (closeTrade bt li (dates sd ! li) lp ''End of Backtest'' t)"
    by (simp add: closed_ok_def open_ok_def closeTrade_strings)
  then show ?thesis
    unfolding forceCloseLoop_trades [OF assms(1)] using assms(2,3) by auto
qed

lemma closeOpenPositions_inv:
  assumes "closeOpenPositions bt sd li lp cur trs cap = Inr (cur', trs', cap')"
    and "\<forall>t \<in> set cur. open_ok t" "\<forall>t \<in> set trs. closed_ok t"
  shows "\<forall>t \<in> set trs'. closed_ok t"
proof (cases "forceCloseAtEnd bt")
  case True
  with assms(1) have "forceCloseLoop bt sd li lp cur ([], trs, cap) = Inr (cur', trs', cap')"
    by (simp add: closeOpenPositions_def)
  then show ?thesis using assms(2,3) by (rule forceCloseLoop_inv)
next
  case False
  with assms(1) have "trs' = trs" by (simp add: closeOpenPositions_def)
  then show ?thesis using assms(3) by simp
qed

lemma closeAtEnd_Inr:
  assumes "closeAtEnd bt n st = Inr st'"
  obtains lp cur cap where
    "closeOpenPositions bt (seriesData st) (to_size_t (int n - 1)) lp (currentTrades st)
       (trades st) (currentCapital st) = Inr (cur, trades st', cap)"
proof -
  from assms obtain lp r where
    1: "closeOpenPositions bt (seriesData st) (to_size_t (int n - 1)) lp (currentTrades st)
       (trades st) (currentCapital st) = Inr r"
    and 2: "(case r of (cur, trs, cap) \<Rightarrow>
          bind_err (updateFinalState bt (seriesData st) (to_size_t (int n - 1)) cur cap)
            (\<lambda>sd'. Inr \<lparr> currentTrades = cur, trades = trs, seriesData = sd',
                          currentCapital = cap \<rparr>)) = Inr st'"
    unfolding closeAtEnd_def Let_def bind_err_eq_Inr by (elim exE conjE)
  obtain cur trs cap where r: "r = (cur, trs, cap)" by (cases r)
  from 2 r have "trades st' = trs"
    by (cases "updateFinalState bt (seriesData st) (to_size_t (int n - 1)) cur cap") auto
  with 1 r that show thesis by simp
qed

lemma closeAtEnd_inv:
  assumes "closeAtEnd bt n st = Inr st'" "ledger_inv st"
  shows "\<forall>t \<in> set (trades st'). closed_ok t"
proof -
  from assms(1) obtain lp cur cap where
    c: "closeOpenPositions bt (seriesData st) (to_size_t (int n - 1)) lp (currentTrades st)
       (trades st) (currentCapital st) = Inr (cur, trades st', cap)"
    by (rule closeAtEnd_Inr)
  show ?thesis
    using closeOpenPositions_inv [OF c] assms(2) by (simp add: ledger_inv_def)
qed

lemma simulate_ledger:
  assumes "simulate bt es xs = Inr (trs, sd)"
  shows "\<forall>t \<in> set trs. closed_ok t"
proof -
  let ?st0 = "\<lparr> currentTrades = [], trades = [], seriesData = data bt,
                 currentCapital = startFund bt \<rparr>"
  from assms obtain st1 st2 where
    1: "barLoop bt es xs (length (prices (data bt))) 0 ?st0 = Inr st1"
    and 2: "closeAtEnd bt (length (prices (data bt))) st1 = Inr st2"
    and 3: "trs = trades st2"
    unfolding simulate_def Let_def bind_err_eq_Inr by (elim exE conjE) simp
  have "ledger_inv ?st0" by (simp add: ledger_inv_def)
  then have "ledger_inv st1" using barLoop_inv [OF 1] by simp
  then show ?thesis using closeAtEnd_inv [OF 2] 3 by simp
qed

text \<open>
  Claim C7, as amended. Every trade of the ledger that a run stores has the direction
  \<open>long\<close> or \<open>short\<close> and one of the exit reasons \<open>Take Profit\<close>, \<open>Stop Loss\<close>,
  \<open>Exit Signal\<close>, \<open>Max Holding Period Reached\<close>, \<open>End of Backtest\<close>; these are the strings
  the code writes, and the strings of \<open>FORCE_EXIT\<close> and \<open>NONE\<close> never reach the ledger.
\<close>

theorem ledger_strings_of_the_code:
  assumes "runSingleBacktest bt es xs = Inr (m, bt')"
  shows "\<forall>t \<in> set (getTrades bt').
     (direction t = ''long'' \<or> direction t = ''short'')
     \<and> exitReason t \<in> {''Take Profit'', ''Stop Loss'', ''Exit Signal'',
                         ''Max Holding Period Reached'', ''End of Backtest''}"
proof -
  from assms obtain trs sd where
    s: "simulate bt es xs = Inr (trs, sd)" and b: "bt' = bt \<lparr> m_trades := trs \<rparr>"
    by (auto simp: runSingleBacktest_def bind_err_eq_Inr)
  have "\<forall>t \<in> set trs. closed_ok t" using simulate_ledger [OF s] .
  then show ?thesis using b by (simp add: getTrades_def closed_ok_def open_ok_def)
qed

section \<open>The capital identity on constructed objects\<close>

lemma init_storage_ok:
  assumes "availableCapital d = []" "positionValue d = []" "totalCapital d = []"
    "dailyReturn d = []" "cumulativeReturn d = []" "length (dates d) = n" "length (prices d) = n"
  shows "series_ok n (init_storage bt n d)"
  using assms by (simp add: series_ok_def init_storage_def resize_def)

lemma Backtest_single_ok:
  assumes "Backtest_single ps es xs ds a = Inr bt"
  shows "series_ok (length ps) (data bt) \<and> length (entries (data bt)) = length ps
     \<and> length (exits (data bt)) = length ps"
proof -
  have l: "length ps = length es" "length ps = length xs" "length ps = length ds"
    using assms by (auto simp: Backtest_single_def Let_def split: if_splits)
  let ?b = "init_members a False [] []"
  let ?d = "(data ?b) \<lparr> prices := ps, entries := es, exits := xs, dates := ds \<rparr>"
  have bt: "bt = ?b \<lparr> data := init_storage ?b (length ps) ?d \<rparr>"
    using assms l by (simp add: Backtest_single_def Let_def)
  have "series_ok (length ps) (init_storage ?b (length ps) ?d)"
    using l by (intro init_storage_ok) (simp_all add: init_members_def)
  moreover have "entries (init_storage ?b (length ps) ?d) = es"
    "exits (init_storage ?b (length ps) ?d) = xs"
    by (simp_all add: init_storage_def)
  ultimately show ?thesis using bt l by simp
qed

lemma Backtest_multi_ok:
  assumes "Backtest_multi ps em xm ds a = Inr bt" "name \<in> set (params bt)"
  shows "series_ok (length ps) (data bt)
     \<and> length (map_index (entriesMap bt) name) = length ps
     \<and> length (map_index (exitsMap bt) name) = length ps"
proof -
  let ?b = "init_members a True em xm"
  let ?d = "(data ?b) \<lparr> prices := ps, dates := ds \<rparr>"
  from assms(1) obtain names where
    c: "check_params ps ds xm em [] = Inr names"
    and bt: "bt = ?b \<lparr> params := names, data := init_storage ?b (length ps) ?d \<rparr>"
    by (cases "check_params ps ds xm em []")
       (simp_all add: Backtest_multi_def Let_def init_members_sel)
  have names: "names = map fst em" using check_params_names [OF c] by simp
  have good: "\<forall>e \<in> set em. \<not> bad_param ps ds xm e"
    using check_params_isl [of ps ds xm em "[]"] c by simp
  have p: "name \<in> fst ` set em" using assms(2) bt names by simp
  then obtain v where v: "map_of em name = Some v"
    by (metis map_of_eq_None_iff not_Some_eq)
  then have m: "(name, v) \<in> set em" by (rule map_of_SomeD)
  with good have g: "\<not> bad_param ps ds xm (name, v)" by blast
  then obtain w where w: "map_of xm name = Some w" "length v = length ps"
    "length w = length ps" "length ps = length ds"
    by (auto simp: bad_param_def split: option.splits)
  have "series_ok (length ps) (init_storage ?b (length ps) ?d)"
    using w(4) by (intro init_storage_ok) (simp_all add: init_members_def)
  moreover have "entriesMap bt = em" "exitsMap bt = xm"
    using bt by (simp_all add: init_members_def)
  ultimately show ?thesis using bt v w by (simp add: map_index_def)
qed

text \<open>
  Claim C9. For an object made by either constructor from a non-empty price vector, every
  run of the simulation that \<open>run\<close> starts on it (on the object's own signals, or on the
  signals of one of its named parameters) returns, and the series it leaves satisfy
  \<open>totalCapital[i] = availableCapital[i] + positionValue[i]\<close> at every bar \<open>i\<close>, the last bar
  after the end-of-run update included.
\<close>

theorem equity_identity_every_bar:
  assumes "(Backtest_single ps es xs ds a = Inr bt
              \<and> es' = entries (data bt) \<and> xs' = exits (data bt))
           \<or> (Backtest_multi ps em xm ds a = Inr bt \<and> name \<in> set (params bt)
              \<and> es' = map_index (entriesMap bt) name \<and> xs' = map_index (exitsMap bt) name)"
    and "ps \<noteq> []" and "length ps < 2 ^ 64"
  shows "\<exists>trs sd. simulate bt es' xs' = Inr (trs, sd)
     \<and> length (availableCapital sd) = length ps
     \<and> length (positionValue sd) = length ps
     \<and> length (totalCapital sd) = length ps
     \<and> (\<forall>i < length ps. totalCapital sd ! i = availableCapital sd ! i + positionValue sd ! i)"
proof -
  have ok: "series_ok (length ps) (data bt) \<and> length es' = length ps \<and> length xs' = length ps"
    using assms(1) Backtest_single_ok Backtest_multi_ok by blast
  have n: "0 < length ps" using assms(2) by simp
  obtain trs sd where s: "simulate bt es' xs' = Inr (trs, sd)" "series_ok (length ps) sd"
    using simulate_ok [OF conjunct1 [OF ok] n assms(3)] ok by blast
  then show ?thesis by (auto simp: series_ok_def)
qed

text \<open>The short round trip of scenario S4: the run returns and the identity holds at both
  bars.\<close>

theorem equity_identity_every_bar_witness:
  "\<exists>trs sd. backtest_simulate [100, 90] [- 1, 0] [0, 1] [0, 1]
        (defaultArgs \<lparr> arg_tradeType := ''short'', arg_initialCapital := 1000 \<rparr>) = Inr (trs, sd)
     \<and> length (totalCapital sd) = 2
     \<and> totalCapital sd ! 0 = availableCapital sd ! 0 + positionValue sd ! 0
     \<and> totalCapital sd ! 1 = availableCapital sd ! 1 + positionValue sd ! 1"
proof -
  let ?a = "defaultArgs \<lparr> arg_tradeType := ''short'', arg_initialCapital := 1000 \<rparr>"
  obtain bt where c: "Backtest_single [100, 90] [- 1, 0] [0, 1] [0, 1] ?a = Inr bt"
    by (simp add: Backtest_single_def Let_def)
  have h: "(Backtest_single [100, 90] [- 1, 0] [0, 1] [0, 1] ?a = Inr bt
              \<and> entries (data bt) = entries (data bt) \<and> exits (data bt) = exits (data bt))
           \<or> (Backtest_multi [100, 90] [] [] [0, 1] ?a = Inr bt \<and> [] \<in> set (params bt)
              \<and> entries (data bt) = map_index (entriesMap bt) []
              \<and> exits (data bt) = map_index (exitsMap bt) [])"
    using c by simp
  have "\<exists>trs sd. simulate bt (entries (data bt)) (exits (data bt)) = Inr (trs, sd)
     \<and> length (availableCapital sd) = length [100, 90 :: real]
     \<and> length (positionValue sd) = length [100, 90 :: real]
     \<and> length (totalCapital sd) = length [100, 90 :: real]
     \<and> (\<forall>i < length [100, 90 :: real].
           totalCapital sd ! i = availableCapital sd ! i + positionValue sd ! i)"
    by (rule equity_identity_every_bar [OF h]) simp_all
  then obtain trs sd where
    s: "simulate bt (entries (data bt)) (exits (data bt)) = Inr (trs, sd)"
    and l: "length (totalCapital sd) = length [100, 90 :: real]"
    and e: "\<forall>i < length [100, 90 :: real].
           totalCapital sd ! i = availableCapital sd ! i + positionValue sd ! i"
    by (elim exE conjE)
  have "backtest_simulate [100, 90] [- 1, 0] [0, 1] [0, 1] ?a = Inr (trs, sd)"
    using c s by (simp add: backtest_simulate_def)
  moreover have "totalCapital sd ! 0 = availableCapital sd ! 0 + positionValue sd ! 0"
    "totalCapital sd ! 1 = availableCapital sd ! 1 + positionValue sd ! 1"
    using e by simp_all
  ultimately show ?thesis using l by simp
qed

text \<open>
  The claim C7 as it is worded fails on the long round trip of scenario S1: the exit reason
  of its trade is the string \<open>Exit Signal\<close>, which is none of the identifiers of the claim.
\<close>

theorem ledger_strings_counterexample:
  "map exitReason (getTrades (projr (run example_long_round_trip))) = [''Exit Signal'']
   \<and> ''Exit Signal'' \<notin> {''take_profit'', ''stop_loss'', ''exit_signal'', ''max_holding_period'',
        ''end_of_backtest'', ''force_exit''}"
  by (simp add: example_long_round_trip_def ctor_defs bar_defs sim_defs run_defs)

text \<open>The same run: one trade, with the strings \<open>long\<close> and \<open>Exit Signal\<close>.\<close>

theorem ledger_strings_of_the_code_witness:
  "length (getTrades (snd (projr (runSingleBacktest example_long_round_trip
      (entries (data example_long_round_trip)) (exits (data example_long_round_trip)))))) = 1
   \<and> direction (hd (getTrades (snd (projr (runSingleBacktest example_long_round_trip
      (entries (data example_long_round_trip)) (exits (data example_long_round_trip)))))))
       \<in> {''long'', ''short''}
   \<and> exitReason (hd (getTrades (snd (projr (runSingleBacktest example_long_round_trip
      (entries (data example_long_round_trip)) (exits (data example_long_round_trip)))))))
       \<in> {''Take Profit'', ''Stop Loss'', ''Exit Signal'', ''Max Holding Period Reached'',
           ''End of Backtest''}"
proof -
  let ?R = "runSingleBacktest example_long_round_trip
      (entries (data example_long_round_trip)) (exits (data example_long_round_trip))"
  have "\<exists>m bt'. ?R = Inr (m, bt') \<and> length (getTrades bt') = 1"
    by (simp add: example_long_round_trip_def ctor_defs bar_defs sim_defs run_defs)
  then obtain m bt' where p: "?R = Inr (m, bt')" and len: "length (getTrades bt') = 1"
    by (elim exE conjE)
  from len obtain t where t: "getTrades bt' = [t]"
    by (cases "getTrades bt'") simp_all
  have "(direction t = ''long'' \<or> direction t = ''short'')
     \<and> exitReason t \<in> {''Take Profit'', ''Stop Loss'', ''Exit Signal'',
                         ''Max Holding Period Reached'', ''End of Backtest''}"
    using ledger_strings_of_the_code [OF p] t by simp
  then show ?thesis using p t by simp
qed

end
